theory Spec2Isabelle
  imports Main "HOL-Library.Char_ord" "HOL-Library.List_Lexorder"
begin

section \<open>Values\<close>

text \<open>
  The cache module (\<^verbatim>\<open>src/modules/cache/cache.ts\<close>) handles plain JavaScript values:
  the key fields of an entry, the \<^verbatim>\<open>where\<close> object of a query and the cached payload.
  Numbers are the integers the module computes with (identifiers and millisecond
  timestamps). An object is the list of its own enumerable properties in the order
  \<^verbatim>\<open>Object.entries\<close> lists them; a well-formed object has no repeated property name.
\<close>

datatype jsval =
    JUndefined
  | JNull
  | JBool bool
  | JNum int
  | JStr string
  | JArr "jsval list"
  | JObj "(string \<times> jsval) list"

type_synonym obj = "(string \<times> jsval) list"

text \<open>\<^verbatim>\<open>typeof value === 'object'\<close>: true of objects, arrays and \<^verbatim>\<open>null\<close>.\<close>

fun typeof_object :: "jsval \<Rightarrow> bool" where
  "typeof_object JNull = True"
| "typeof_object (JArr _) = True"
| "typeof_object (JObj _) = True"
| "typeof_object _ = False"

fun isArray :: "jsval \<Rightarrow> bool" where
  "isArray (JArr _) = True"
| "isArray _ = False"

text \<open>\<^verbatim>\<open>result[key] = v\<close>: an existing property keeps its place, a new one is added last.\<close>

fun obj_set :: "string \<Rightarrow> 'a \<Rightarrow> (string \<times> 'a) list \<Rightarrow> (string \<times> 'a) list" where
  "obj_set k v [] = [(k, v)]"
| "obj_set k v ((k', v') # rest) =
     (if k' = k then (k, v) # rest else (k', v') # obj_set k v rest)"

text \<open>\<^verbatim>\<open>delete result[key]\<close>.\<close>

definition obj_delete :: "string \<Rightarrow> obj \<Rightarrow> obj" where
  "obj_delete k ob = filter (\<lambda>p. fst p \<noteq> k) ob"

section \<open>Imported helpers\<close>

text \<open>
  Two functions the module imports are not part of the sources: \<^verbatim>\<open>objHash\<close> of the
  package \<^verbatim>\<open>object-hash\<close> and \<^verbatim>\<open>durationStringToMs\<close> of \<^verbatim>\<open>helpers/format\<close>.
  They are parameters of the model: any function from values to strings, and any
  function from the configured duration string (or \<^verbatim>\<open>undefined\<close>, when the
  configuration has neither an entry for the store nor a default) to a number of
  milliseconds.
\<close>

record lib =
  objHash :: "jsval \<Rightarrow> string"
  durationStringToMs :: "string option \<Rightarrow> int"

section \<open>Key normalization\<close>

text \<open>
  \<^verbatim>\<open>hashObjectProps\<close> (cache.ts, lines 186-197) walks the snapshot
  \<^verbatim>\<open>Object.entries(result)\<close> and updates \<^verbatim>\<open>result\<close>, which is the argument itself.
  The guard \<^verbatim>\<open>typeof entry !== 'object'\<close> of its first line is false for every
  argument of type \<^verbatim>\<open>CacheEntry\<close>. One step of the loop body:
\<close>

definition hash_step :: "lib \<Rightarrow> string \<times> jsval \<Rightarrow> obj \<Rightarrow> obj" where
  "hash_step L kv result =
     (let key = fst kv; value = snd kv;
          result1 = (if typeof_object value \<and> \<not> isArray value
                     then obj_set key (JStr (objHash L value)) result
                     else result)
      in if value = JNull \<or> value = JUndefined then obj_delete key result1 else result1)"

definition hashObjectProps :: "lib \<Rightarrow> obj \<Rightarrow> obj" where
  "hashObjectProps L entry = fold (hash_step L) entry entry"

text \<open>
  \<^verbatim>\<open>filterCacheEntry\<close> of the earlier module (Cache/Cache.ts, lines 111-119) is the
  same loop without the guard.
\<close>

definition filterCacheEntry :: "lib \<Rightarrow> obj \<Rightarrow> obj" where
  "filterCacheEntry L entry =
     fold (\<lambda>kv result.
        let result1 = (if typeof_object (snd kv) \<and> \<not> isArray (snd kv)
                       then obj_set (fst kv) (JStr (objHash L (snd kv))) result
                       else result)
        in if snd kv = JNull \<or> snd kv = JUndefined then obj_delete (fst kv) result1
           else result1) entry entry"

text \<open>What the loop leaves of one property: nothing, its fingerprint, or itself.\<close>

definition norm_field :: "lib \<Rightarrow> jsval \<Rightarrow> jsval option" where
  "norm_field L v =
     (if v = JNull \<or> v = JUndefined then None
      else if typeof_object v \<and> \<not> isArray v then Some (JStr (objHash L v))
      else Some v)"

definition norm_list :: "lib \<Rightarrow> obj \<Rightarrow> obj" where
  "norm_list L ob =
     concat (map (\<lambda>kv. case norm_field L (snd kv) of None \<Rightarrow> [] | Some w \<Rightarrow> [(fst kv, w)]) ob)"

section \<open>Structural equality of values\<close>


section \<open>The persistence engine\<close>

text \<open>
  The module stores its entries through Dexie over IndexedDB, neither of which is part
  of the sources. The model below is the part of their documented behaviour that the
  module uses. It is stated for stores whose primary key is one inbound property, not
  auto-incremented, and whose further indexes are plain ones, neither unique nor
  compound nor multi-entry (every built-in store of \<^verbatim>\<open>init\<close>: \<^verbatim>\<open>&params\<close>,
  \<^verbatim>\<open>&id\<close>, \<^verbatim>\<open>&address, nfd\<close>). What the engine itself may print in its debug mode
  is not part of the model.
\<close>

subsection \<open>Keys\<close>

text \<open>A value is a valid IndexedDB key when it is a number, a string or an array of valid keys.\<close>

fun valid_key :: "jsval \<Rightarrow> bool" where
  "valid_key (JNum _) = True"
| "valid_key (JStr _) = True"
| "valid_key (JArr xs) = list_all valid_key xs"
| "valid_key _ = False"

definition cmp3 :: "'a::linorder \<Rightarrow> 'a \<Rightarrow> int" where
  "cmp3 a b = (if a < b then - 1 else if a = b then 0 else 1)"

text \<open>
  \<^verbatim>\<open>indexedDB.cmp\<close> on valid keys: numbers come before strings, strings before arrays;
  strings compare by code unit, arrays element by element.
\<close>

fun key_cmp :: "jsval \<Rightarrow> jsval \<Rightarrow> int"
  and keys_cmp :: "jsval list \<Rightarrow> jsval list \<Rightarrow> int" where
  "key_cmp (JNum a) (JNum b) = cmp3 a b"
| "key_cmp (JNum _) (JStr _) = - 1"
| "key_cmp (JNum _) (JArr _) = - 1"
| "key_cmp (JStr _) (JNum _) = 1"
| "key_cmp (JStr a) (JStr b) = cmp3 a b"
| "key_cmp (JStr _) (JArr _) = - 1"
| "key_cmp (JArr _) (JNum _) = 1"
| "key_cmp (JArr _) (JStr _) = 1"
| "key_cmp (JArr xs) (JArr ys) = keys_cmp xs ys"
| "key_cmp _ _ = 0"
| "keys_cmp [] [] = 0"
| "keys_cmp [] (y # ys) = - 1"
| "keys_cmp (x # xs) [] = 1"
| "keys_cmp (x # xs) (y # ys) =
     (let c = key_cmp x y in if c \<noteq> 0 then c else keys_cmp xs ys)"

subsection \<open>Stored entries and tables\<close>

text \<open>
  Modelled from the spec: the type \<^verbatim>\<open>CacheEntry\<close> is declared in
  \<^verbatim>\<open>modules/cache/types\<close>, which is not among the sources. Following the data model
  of the specification, a stored entry has its key properties, the payload \<^verbatim>\<open>data\<close>
  and the number \<^verbatim>\<open>timestamp\<close>. The properties \<^verbatim>\<open>data\<close> and \<^verbatim>\<open>timestamp\<close> are
  fields of the record; \<^verbatim>\<open>row_get\<close> reads a property by name.
\<close>

record row =
  keyFields :: obj
  data :: jsval
  timestamp :: int

definition row_get :: "row \<Rightarrow> string \<Rightarrow> jsval option" where
  "row_get r k =
     (if k = ''timestamp'' then Some (JNum (timestamp r))
      else if k = ''data'' then Some (data r)
      else map_of (keyFields r) k)"

text \<open>
  A table, as its schema string declares it: the key path of the primary key, the key
  paths of the further indexes (\<^verbatim>\<open>&address, nfd\<close> declares the primary key
  \<^verbatim>\<open>address\<close> and the index \<^verbatim>\<open>nfd\<close>), and the stored rows.
\<close>

record table =
  primKey :: string
  indexes :: "string list"
  rows :: "row list"

text \<open>
  A \<^verbatim>\<open>Dexie\<close> instance: its declared tables, each of which it exposes as the property
  of its name, and \<open>members\<close>, the names of its other properties that hold a truthy
  value, own or inherited (among them \<^verbatim>\<open>constructor\<close> and \<^verbatim>\<open>toString\<close> of every
  object, and \<^verbatim>\<open>open\<close>, \<^verbatim>\<open>close\<close>, \<^verbatim>\<open>delete\<close>, \<^verbatim>\<open>name\<close>, \<^verbatim>\<open>tables\<close> of
  \<^verbatim>\<open>Dexie\<close>). No declared table has the name of a member. The instance opens
  itself at the first request; \<open>closed\<close> holds once it has been closed for good, after
  which it keeps its tables and members but serves no request.
\<close>

record dexie =
  tables :: "(string \<times> table) list"
  members :: "string list"
  closed :: bool

text \<open>What the engine reports when a request fails: \<^verbatim>\<open>error.name\<close> and \<^verbatim>\<open>error.inner?.name\<close>.\<close>

record dexie_error =
  err_name :: string
  inner_name :: "string option"

definition DataError :: dexie_error where
  "DataError = \<lparr>err_name = ''DataError'', inner_name = None\<rparr>"

definition SchemaError :: dexie_error where
  "SchemaError = \<lparr>err_name = ''SchemaError'', inner_name = None\<rparr>"

definition DatabaseClosedError :: dexie_error where
  "DatabaseClosedError = \<lparr>err_name = ''DatabaseClosedError'', inner_name = None\<rparr>"

text \<open>\<^verbatim>\<open>Dexie.errnames.Upgrade\<close>.\<close>

definition errnames_Upgrade :: string where
  "errnames_Upgrade = ''UpgradeError''"

text \<open>
  What a caller of an asynchronous method can observe instead of a value: a
  \<^verbatim>\<open>TypeError\<close> thrown by the method body, or the rejection of an engine request.
\<close>

datatype exn = TypeError string | Rejected dexie_error

datatype log_msg = ConsoleError string | ConsoleWarn string

text \<open>
  \<^verbatim>\<open>this.db[store]\<close> is a property lookup on the instance: it yields the table of
  that name, or else the value of the member of that name, or else \<^verbatim>\<open>undefined\<close>.
  \<open>db_table\<close> is the first case, \<open>db_member\<close> the second.
\<close>

definition db_table :: "dexie \<Rightarrow> string \<Rightarrow> table option" where
  "db_table d store = map_of (tables d) store"

definition db_member :: "dexie \<Rightarrow> string \<Rightarrow> bool" where
  "db_member d store = (db_table d store = None \<and> store \<in> set (members d))"

text \<open>
  How the engine answers a request: with the failure it reports, if any; otherwise, on
  an instance that has been closed, with \<^verbatim>\<open>DatabaseClosedError\<close>; otherwise by
  serving it.
\<close>

definition request :: "dexie \<Rightarrow> dexie_error option \<Rightarrow> dexie_error option" where
  "request d fault =
     (case fault of
        Some e \<Rightarrow> Some e
      | None \<Rightarrow> if closed d then Some DatabaseClosedError else None)"

definition set_table :: "string \<Rightarrow> table \<Rightarrow> dexie \<Rightarrow> dexie" where
  "set_table store t d =
     d\<lparr>tables := map (\<lambda>p. if fst p = store then (fst p, t) else p) (tables d)\<rparr>"

text \<open>The rows of a table are kept in the order of their keys.\<close>

definition row_before :: "string \<Rightarrow> row \<Rightarrow> row \<Rightarrow> bool" where
  "row_before k r x =
     (case (row_get r k, row_get x k) of
        (Some a, Some b) \<Rightarrow> key_cmp a b < 0
      | _ \<Rightarrow> False)"

fun insert_row :: "string \<Rightarrow> row \<Rightarrow> row list \<Rightarrow> row list" where
  "insert_row k r [] = [r]"
| "insert_row k r (x # xs) =
     (if row_before k r x then r # x # xs else x # insert_row k r xs)"

text \<open>
  \<^verbatim>\<open>Table.put(entry)\<close>: the request fails when the engine reports a failure, or with
  \<^verbatim>\<open>DataError\<close> when the entry has no valid key at the key path; otherwise the entry
  replaces the row of the same key, or is added.
\<close>

definition table_put :: "dexie_error option \<Rightarrow> row \<Rightarrow> table \<Rightarrow> dexie_error + table" where
  "table_put fault entry t =
     (case fault of
        Some e \<Rightarrow> Inl e
      | None \<Rightarrow>
          (case row_get entry (primKey t) of
             None \<Rightarrow> Inl DataError
           | Some key \<Rightarrow>
               if valid_key key
               then Inr (t\<lparr>rows := insert_row (primKey t) entry
                              (filter (\<lambda>x. row_get x (primKey t) \<noteq> Some key) (rows t))\<rparr>)
               else Inl DataError))"

text \<open>
  \<^verbatim>\<open>db.delete()\<close> closes the instance and deletes the database: every row is gone.
  The instance keeps its declared schema, but \<^verbatim>\<open>delete\<close> also switches off its
  opening on demand, so that it serves no request until \<^verbatim>\<open>open()\<close> is called on it.
\<close>

definition db_delete :: "dexie \<Rightarrow> dexie" where
  "db_delete d =
     d\<lparr>tables := map (\<lambda>p. (fst p, (snd p)\<lparr>rows := []\<rparr>)) (tables d), closed := True\<rparr>"

subsection \<open>Collections\<close>

text \<open>
  A Dexie \<^verbatim>\<open>Collection\<close> is a pending query: the rows its index range yields, in
  order, the conjunction of the filters added so far, and a limit. A filter is run when
  the cursor reaches a row; the expiration filter may write to the console, so a filter
  returns its verdict together with what it logged. A query that the schema cannot serve
  is a collection all the same: it carries the error with which its execution will be
  rejected.
\<close>

type_synonym row_filter = "row \<Rightarrow> bool \<times> log_msg list"

record collection =
  c_rows :: "row list"
  c_filter :: row_filter
  c_limit :: "nat option"
  c_error :: "dexie_error option"

definition accept_all :: row_filter where
  "accept_all r = (True, [])"

definition and_filter :: "row_filter \<Rightarrow> row_filter \<Rightarrow> row_filter" where
  "and_filter p q r =
     (case p r of
        (True, l1) \<Rightarrow> (case q r of (b, l2) \<Rightarrow> (b, l1 @ l2))
      | (False, l1) \<Rightarrow> (False, l1))"

definition to_collection :: "table \<Rightarrow> collection" where
  "to_collection t =
     \<lparr>c_rows = rows t, c_filter = accept_all, c_limit = None, c_error = None\<rparr>"

definition failed :: "dexie_error \<Rightarrow> collection" where
  "failed e = \<lparr>c_rows = [], c_filter = accept_all, c_limit = None, c_error = Some e\<rparr>"

text \<open>A key path is indexed in a table when it is the primary key or one of the indexes.\<close>

definition indexed :: "table \<Rightarrow> string \<Rightarrow> bool" where
  "indexed t k = (k = primKey t \<or> k \<in> set (indexes t))"

text \<open>The cursor: rows in order, stopping after the first \<open>n\<close> matches.\<close>

fun first_match :: "row_filter \<Rightarrow> row list \<Rightarrow> row option \<times> log_msg list" where
  "first_match p [] = (None, [])"
| "first_match p (r # rs) =
     (case p r of
        (True, l) \<Rightarrow> (Some r, l)
      | (False, l) \<Rightarrow> (case first_match p rs of (res, l') \<Rightarrow> (res, l @ l')))"

fun take_matches :: "nat \<Rightarrow> row_filter \<Rightarrow> row list \<Rightarrow> row list \<times> log_msg list" where
  "take_matches 0 p rs = ([], [])"
| "take_matches (Suc n) p [] = ([], [])"
| "take_matches (Suc n) p (r # rs) =
     (case p r of
        (True, l) \<Rightarrow> (case take_matches n p rs of (res, l') \<Rightarrow> (r # res, l @ l'))
      | (False, l) \<Rightarrow> (case take_matches (Suc n) p rs of (res, l') \<Rightarrow> (res, l @ l')))"

fun all_matches :: "row_filter \<Rightarrow> row list \<Rightarrow> row list \<times> log_msg list" where
  "all_matches p [] = ([], [])"
| "all_matches p (r # rs) =
     (case p r of
        (True, l) \<Rightarrow> (case all_matches p rs of (res, l') \<Rightarrow> (r # res, l @ l'))
      | (False, l) \<Rightarrow> (case all_matches p rs of (res, l') \<Rightarrow> (res, l @ l')))"

text \<open>
  Equality of a criterion value and a stored value is \<^verbatim>\<open>indexedDB.cmp(a, b) === 0\<close>,
  which holds of equal valid keys only.
\<close>

definition cmp_equal :: "jsval \<Rightarrow> jsval \<Rightarrow> bool" where
  "cmp_equal a b = (valid_key a \<and> valid_key b \<and> a = b)"

definition row_matches :: "obj \<Rightarrow> row \<Rightarrow> bool" where
  "row_matches crit r =
     list_all (\<lambda>p. case row_get r (fst p) of Some x \<Rightarrow> cmp_equal (snd p) x | None \<Rightarrow> False) crit"

text \<open>
  \<^verbatim>\<open>Table.where(criteria)\<close> with an object of criteria. With one criterion the
  engine opens the index of that property, which must be the primary key or an index. With
  several (and no compound index) it opens the index of the first property that has one
  among the further indexes of the schema, the primary key not counting, and filters on
  the other criteria. With none, or when no such index exists, the query is rejected with
  \<^verbatim>\<open>SchemaError\<close>. \<open>where_index\<close> is the property whose index is opened.
\<close>

definition where_index :: "table \<Rightarrow> obj \<Rightarrow> string option" where
  "where_index t crit =
     (case crit of
        [] \<Rightarrow> None
      | [p] \<Rightarrow> if indexed t (fst p) then Some (fst p) else None
      | p # p' # ps \<Rightarrow> List.find (\<lambda>k. k \<in> set (indexes t)) (map fst crit))"

text \<open>
  The value looked up in the opened index must be a valid key, or the query is rejected
  with \<^verbatim>\<open>DataError\<close>. The rows of one index key come in the order of the primary
  key, which is the order of the table.
\<close>

definition where_equals :: "table \<Rightarrow> obj \<Rightarrow> collection" where
  "where_equals t crit =
     (case where_index t crit of
        None \<Rightarrow> failed SchemaError
      | Some k \<Rightarrow>
          (case map_of crit k of
             None \<Rightarrow> failed SchemaError
           | Some v \<Rightarrow>
               if valid_key v
               then (to_collection t)\<lparr>c_rows := filter (row_matches crit) (rows t)\<rparr>
               else failed DataError))"

text \<open>
  \<^verbatim>\<open>Table.orderBy(index)\<close> walks the index: the rows that have a valid key at the
  property, by that key, rows of equal keys in the order of the table. A property that
  is not indexed gives a query that is rejected with \<^verbatim>\<open>SchemaError\<close>.
\<close>

definition has_key_at :: "string \<Rightarrow> row \<Rightarrow> bool" where
  "has_key_at k r = (case row_get r k of Some v \<Rightarrow> valid_key v | None \<Rightarrow> False)"

definition order_rows :: "string \<Rightarrow> row list \<Rightarrow> row list" where
  "order_rows k rs = fold (insert_row k) (filter (has_key_at k) rs) []"

text \<open>
  The module holds in one variable what is first a \<^verbatim>\<open>Table\<close> and, after the first
  query method, a \<^verbatim>\<open>Collection\<close>. The two classes do not have the same methods: a
  \<^verbatim>\<open>Table\<close> has \<^verbatim>\<open>orderBy\<close>, \<^verbatim>\<open>where\<close>, \<^verbatim>\<open>filter\<close>, \<^verbatim>\<open>limit\<close> and \<^verbatim>\<open>toArray\<close> but
  neither \<^verbatim>\<open>desc\<close> nor \<^verbatim>\<open>first\<close>; a \<^verbatim>\<open>Collection\<close> has \<^verbatim>\<open>desc\<close>, \<^verbatim>\<open>filter\<close>,
  \<^verbatim>\<open>first\<close>, \<^verbatim>\<open>limit\<close> and \<^verbatim>\<open>toArray\<close> but neither \<^verbatim>\<open>orderBy\<close> nor \<^verbatim>\<open>where\<close>.
  Calling a method an object does not have throws a \<^verbatim>\<open>TypeError\<close>. \<open>Other\<close> is
  the value of a member of the instance: a function, a string or an object with none of
  these methods (the array \<^verbatim>\<open>tables\<close> has a \<^verbatim>\<open>filter\<close> of its own, whose result
  has none of them either, so that the call ends in a \<^verbatim>\<open>TypeError\<close> all the same).
\<close>

datatype handle = Table table | Collection collection | Other

fun h_orderBy :: "string \<Rightarrow> handle \<Rightarrow> exn + handle" where
  "h_orderBy k (Table t) =
     Inr (Collection (if indexed t k
                      then (to_collection t)\<lparr>c_rows := order_rows k (rows t)\<rparr>
                      else failed SchemaError))"
| "h_orderBy k (Collection c) = Inl (TypeError ''table.orderBy is not a function'')"
| "h_orderBy k Other = Inl (TypeError ''table.orderBy is not a function'')"

fun h_desc :: "handle \<Rightarrow> exn + handle" where
  "h_desc (Table t) = Inl (TypeError ''table.desc is not a function'')"
| "h_desc (Collection c) = Inr (Collection (c\<lparr>c_rows := rev (c_rows c)\<rparr>))"
| "h_desc Other = Inl (TypeError ''table.desc is not a function'')"

fun h_where :: "obj \<Rightarrow> handle \<Rightarrow> exn + handle" where
  "h_where crit (Table t) = Inr (Collection (where_equals t crit))"
| "h_where crit (Collection c) = Inl (TypeError ''table.where is not a function'')"
| "h_where crit Other = Inl (TypeError ''table.where is not a function'')"

fun h_filter :: "row_filter \<Rightarrow> handle \<Rightarrow> exn + handle" where
  "h_filter p (Table t) = Inr (Collection ((to_collection t)\<lparr>c_filter := p\<rparr>))"
| "h_filter p (Collection c) = Inr (Collection (c\<lparr>c_filter := and_filter (c_filter c) p\<rparr>))"
| "h_filter p Other = Inl (TypeError ''table.filter is not a function'')"

fun h_limit :: "nat \<Rightarrow> handle \<Rightarrow> exn + handle" where
  "h_limit n (Table t) = Inr (Collection ((to_collection t)\<lparr>c_limit := Some n\<rparr>))"
| "h_limit n (Collection c) =
     Inr (Collection (c\<lparr>c_limit := Some (case c_limit c of None \<Rightarrow> n | Some m \<Rightarrow> min m n)\<rparr>))"
| "h_limit n Other = Inl (TypeError ''table.limit is not a function'')"

text \<open>
  The two requests that read. \<open>fault\<close> is the failure, if any, with which the
  engine answers the request (\<open>request\<close> above); a request it would serve is rejected
  when the query carries an error.
\<close>

fun h_first :: "dexie_error option \<Rightarrow> handle \<Rightarrow> (exn + row option) \<times> log_msg list" where
  "h_first fault (Table t) = (Inl (TypeError ''table.first is not a function''), [])"
| "h_first fault (Collection c) =
     (case fault of
        Some e \<Rightarrow> (Inl (Rejected e), [])
      | None \<Rightarrow>
          (case c_error c of
             Some e \<Rightarrow> (Inl (Rejected e), [])
           | None \<Rightarrow> (case first_match (c_filter c) (c_rows c) of (res, l) \<Rightarrow> (Inr res, l))))"
| "h_first fault Other = (Inl (TypeError ''table.first is not a function''), [])"

definition run_collection :: "collection \<Rightarrow> row list \<times> log_msg list" where
  "run_collection c =
     (case c_limit c of
        None \<Rightarrow> all_matches (c_filter c) (c_rows c)
      | Some n \<Rightarrow> take_matches n (c_filter c) (c_rows c))"

fun h_toArray :: "dexie_error option \<Rightarrow> handle \<Rightarrow> (exn + row list) \<times> log_msg list" where
  "h_toArray fault (Table t) =
     (case fault of
        Some e \<Rightarrow> (Inl (Rejected e), [])
      | None \<Rightarrow> (Inr (rows t), []))"
| "h_toArray fault (Collection c) =
     (case fault of
        Some e \<Rightarrow> (Inl (Rejected e), [])
      | None \<Rightarrow>
          (case c_error c of
             Some e \<Rightarrow> (Inl (Rejected e), [])
           | None \<Rightarrow> (case run_collection c of (res, l) \<Rightarrow> (Inr res, l))))"
| "h_toArray fault Other = (Inl (TypeError ''table.toArray is not a function''), [])"

section \<open>The cache module\<close>

text \<open>
  Modelled from the spec: the type \<^verbatim>\<open>CacheConfigs\<close> is declared in
  \<^verbatim>\<open>modules/cache/types\<close>, which is not among the sources. Of the merged
  configuration the constructor builds (lines 22-41), the module reads the namespace,
  the flag \<^verbatim>\<open>logExpiration\<close> and the map \<^verbatim>\<open>expiration\<close> from store names (and
  \<^verbatim>\<open>default\<close>) to duration strings.
\<close>

record configs =
  namespace :: string
  logExpiration :: bool
  expiration :: "string \<Rightarrow> string option"

text \<open>
  The state of a \<^verbatim>\<open>Cache\<close>: its merged configuration and its database, together
  with what the module has written to the console (\<^verbatim>\<open>console.error\<close>,
  \<^verbatim>\<open>console.warn\<close>), oldest first.
\<close>

record cache =
  configs :: configs
  db :: dexie
  console :: "log_msg list"

text \<open>
  Modelled from the spec: the type \<^verbatim>\<open>CacheQuery\<close> is declared in
  \<^verbatim>\<open>modules/cache/types\<close>, which is not among the sources. Its properties are the
  ones \<^verbatim>\<open>find\<close> reads. An absent property is \<open>None\<close>; an absent
  \<^verbatim>\<open>includeExpired\<close> is \<open>False\<close>. The names \<^verbatim>\<open>where\<close>, \<^verbatim>\<open>order\<close> and \<^verbatim>\<open>filter\<close>
  carry a suffix here.
\<close>

record query =
  where_q :: "obj option"
  orderBy :: "string option"
  order_q :: "string option"
  filter_q :: "(row \<Rightarrow> bool) option"
  includeExpired :: bool
  limit :: "nat option"

text \<open>What \<^verbatim>\<open>find\<close> resolves to: \<^verbatim>\<open>undefined\<close>, one entry, or an array of entries.\<close>

datatype found = Nothing | Single row | Many "row list"

subsection \<open>Expiration\<close>

text \<open>
  \<^verbatim>\<open>getExpiration\<close> (lines 214-218):
  \<^verbatim>\<open>this.configs.expiration[store] || this.configs.expiration.default\<close>, handed to
  \<^verbatim>\<open>durationStringToMs\<close>. An empty string is falsy.
\<close>

definition getExpiration :: "lib \<Rightarrow> configs \<Rightarrow> string \<Rightarrow> int" where
  "getExpiration L c store =
     (let expirationStr =
            (case expiration c store of
               Some s \<Rightarrow> if s \<noteq> [] then Some s else expiration c ''default''
             | None \<Rightarrow> expiration c ''default'')
      in durationStringToMs L expirationStr)"

text \<open>\<^verbatim>\<open>isExpired\<close> (lines 206-212), at the clock reading \<open>now\<close>.\<close>

definition isExpired :: "lib \<Rightarrow> configs \<Rightarrow> int \<Rightarrow> string \<Rightarrow> row \<Rightarrow> bool \<times> log_msg list" where
  "isExpired L c now store entry =
     (let expiration = getExpiration L c store;
          isExpired = (timestamp entry + expiration < now)
      in (isExpired,
          if isExpired \<and> logExpiration c
          then [ConsoleWarn (''['' @ store @ ''] Cache entry has expired.'')]
          else []))"

subsection \<open>find\<close>

text \<open>
  \<^verbatim>\<open>find\<close> (lines 130-158). \<open>now\<close> is the reading of \<^verbatim>\<open>Date.now()\<close> during the
  call and \<open>fault\<close> the failure, if any, that the engine reports for its read request.
  Each line of the method body is one step; a step that throws ends the call.
\<close>

definition step_orderBy :: "query \<Rightarrow> handle \<Rightarrow> exn + handle" where
  "step_orderBy q h =
     (case orderBy q of
        Some k \<Rightarrow> if k \<noteq> [] then h_orderBy k h else Inr h
      | None \<Rightarrow> Inr h)"

definition step_order :: "query \<Rightarrow> handle \<Rightarrow> exn + handle" where
  "step_order q h =
     (case order_q q of
        Some ord \<Rightarrow> if ord \<noteq> [] \<and> ord \<in> set [''desc'', ''DESC''] then h_desc h else Inr h
      | None \<Rightarrow> Inr h)"

definition step_where :: "lib \<Rightarrow> query \<Rightarrow> handle \<Rightarrow> exn + handle" where
  "step_where L q h =
     (case where_q q of
        Some w \<Rightarrow> h_where (hashObjectProps L w) h
      | None \<Rightarrow> Inr h)"

definition step_filter :: "query \<Rightarrow> handle \<Rightarrow> exn + handle" where
  "step_filter q h =
     (case filter_q q of
        Some f \<Rightarrow> h_filter (\<lambda>r. (f r, [])) h
      | None \<Rightarrow> Inr h)"

definition not_expired :: "lib \<Rightarrow> configs \<Rightarrow> int \<Rightarrow> string \<Rightarrow> row_filter" where
  "not_expired L c now store entry =
     (case isExpired L c now store entry of (b, l) \<Rightarrow> (\<not> b, l))"

definition step_expired :: "lib \<Rightarrow> configs \<Rightarrow> int \<Rightarrow> string \<Rightarrow> query \<Rightarrow> handle \<Rightarrow> exn + handle" where
  "step_expired L c now store q h =
     (if \<not> includeExpired q then h_filter (not_expired L c now store) h else Inr h)"

definition bind_exn :: "exn + 'a \<Rightarrow> ('a \<Rightarrow> exn + 'b) \<Rightarrow> exn + 'b" where
  "bind_exn m f = (case m of Inl e \<Rightarrow> Inl e | Inr x \<Rightarrow> f x)"

definition build_query ::
  "lib \<Rightarrow> configs \<Rightarrow> int \<Rightarrow> string \<Rightarrow> query \<Rightarrow> handle \<Rightarrow> exn + handle" where
  "build_query L c now store q table =
     bind_exn (step_orderBy q table) (\<lambda>h1.
     bind_exn (step_order q h1) (\<lambda>h2.
     bind_exn (step_where L q h2) (\<lambda>h3.
     bind_exn (step_filter q h3) (\<lambda>h4.
     step_expired L c now store q h4))))"

definition found_first :: "row option \<Rightarrow> found" where
  "found_first r = (case r of None \<Rightarrow> Nothing | Some x \<Rightarrow> Single x)"

definition run_query ::
  "dexie_error option \<Rightarrow> query \<Rightarrow> handle \<Rightarrow> (exn + found) \<times> log_msg list" where
  "run_query fault q h =
     (case limit q of
        None \<Rightarrow>
          (case h_first fault h of
             (Inl e, l) \<Rightarrow> (Inl e, l)
           | (Inr r, l) \<Rightarrow> (Inr (found_first r), l))
      | Some n \<Rightarrow>
          (case h_limit n h of
             Inl e \<Rightarrow> (Inl e, [])
           | Inr h' \<Rightarrow>
               (case h_toArray fault h' of
                  (Inl e, l) \<Rightarrow> (Inl e, l)
                | (Inr rs, l) \<Rightarrow> (Inr (Many rs), l))))"

definition store_not_found :: "string \<Rightarrow> log_msg" where
  "store_not_found store = ConsoleError (''Store not found ('' @ store @ '')'')"

text \<open>The body of \<^verbatim>\<open>find\<close> after the guard (lines 141-157), from the value of \<^verbatim>\<open>table\<close>.\<close>

definition find_in ::
  "lib \<Rightarrow> int \<Rightarrow> dexie_error option \<Rightarrow> cache \<Rightarrow> string \<Rightarrow> query \<Rightarrow> handle \<Rightarrow>
   (exn + found) \<times> cache" where
  "find_in L now fault C store q table =
     (case build_query L (configs C) now store q table of
        Inl e \<Rightarrow> (Inl e, C)
      | Inr h \<Rightarrow>
          (case run_query (request (db C) fault) q h of
             (res, l) \<Rightarrow> (res, C\<lparr>console := console C @ l\<rparr>)))"

definition find ::
  "lib \<Rightarrow> int \<Rightarrow> dexie_error option \<Rightarrow> cache \<Rightarrow> string \<Rightarrow> query \<Rightarrow> (exn + found) \<times> cache" where
  "find L now fault C store q =
     (case db_table (db C) store of
        Some t \<Rightarrow> find_in L now fault C store q (Table t)
      | None \<Rightarrow>
          if db_member (db C) store then find_in L now fault C store q Other
          else (Inr Nothing, C\<lparr>console := console C @ [store_not_found store]\<rparr>))"

subsection \<open>save and the error handler\<close>

text \<open>\<^verbatim>\<open>clearAll\<close> (lines 240-242) and \<^verbatim>\<open>handleError\<close> (lines 225-233).\<close>

definition clearAll :: "cache \<Rightarrow> cache" where
  "clearAll C = C\<lparr>db := db_delete (db C)\<rparr>"

definition upgrade_warning :: log_msg where
  "upgrade_warning =
     ConsoleWarn ''An error occured while upgrading IndexedDB tables. Clearing IndexedDB Cache.''"

definition error_names :: "dexie_error \<Rightarrow> string list" where
  "error_names error =
     err_name error # (case inner_name error of
                         Some n \<Rightarrow> if n \<noteq> [] then [n] else []
                       | None \<Rightarrow> [])"

definition handleError :: "dexie_error \<Rightarrow> cache \<Rightarrow> cache" where
  "handleError error C =
     (let names = error_names error
      in if errnames_Upgrade \<in> set names
         then clearAll (C\<lparr>console := console C @ [upgrade_warning]\<rparr>)
         else C)"

text \<open>
  \<^verbatim>\<open>save\<close> (lines 165-178). The entry written is
  \<^verbatim>\<open>{...this.hashObjectProps(entry), data, timestamp: Date.now()}\<close>: a property
  \<^verbatim>\<open>data\<close> or \<^verbatim>\<open>timestamp\<close> among the key fields is overwritten. When
  \<^verbatim>\<open>this.db[store]\<close> is a member of the instance, the call of \<^verbatim>\<open>put\<close> throws a
  \<^verbatim>\<open>TypeError\<close> inside the \<^verbatim>\<open>try\<close> block, which the handler receives.
\<close>

definition no_put :: dexie_error where
  "no_put = \<lparr>err_name = ''TypeError'', inner_name = None\<rparr>"

definition make_entry :: "obj \<Rightarrow> jsval \<Rightarrow> int \<Rightarrow> row" where
  "make_entry hashed d now =
     \<lparr>keyFields = obj_delete ''timestamp'' (obj_delete ''data'' hashed),
      data = d, timestamp = now\<rparr>"

definition save ::
  "lib \<Rightarrow> int \<Rightarrow> dexie_error option \<Rightarrow> cache \<Rightarrow> string \<Rightarrow> jsval \<Rightarrow> obj \<Rightarrow> (exn + unit) \<times> cache" where
  "save L now fault C store d entry =
     (case db_table (db C) store of
        Some t \<Rightarrow>
          (let entry' = make_entry (hashObjectProps L entry) d now
           in case table_put (request (db C) fault) entry' t of
                Inr t' \<Rightarrow> (Inr (), C\<lparr>db := set_table store t' (db C)\<rparr>)
              | Inl e \<Rightarrow> (Inr (), handleError e C))
      | None \<Rightarrow>
          if db_member (db C) store then (Inr (), handleError no_put C)
          else (Inr (), C\<lparr>console := console C @ [store_not_found store]\<rparr>))"

subsection \<open>prune\<close>

text \<open>
  \<^verbatim>\<open>prune\<close> (lines 248-262). The argument is absent, one name or an array of names.
  \<open>clock i\<close> is the reading of \<^verbatim>\<open>Date.now()\<close> in the \<open>i\<close>-th round of the loop and
  \<open>faults i\<close> the failure, if any, the engine reports for the deletion of that round.
\<close>

datatype stores_arg = AllStores | OneStore string | Stores "string list"

definition prune_targets :: "cache \<Rightarrow> stores_arg \<Rightarrow> string list" where
  "prune_targets C arg =
     (case arg of
        AllStores \<Rightarrow> map fst (tables (db C))
      | OneStore s \<Rightarrow> [s]
      | Stores ss \<Rightarrow> ss)"

text \<open>\<^verbatim>\<open>table.filter(entry => entry.timestamp < expirationLimit).delete()\<close>.\<close>

definition delete_older :: "int \<Rightarrow> table \<Rightarrow> nat \<times> table" where
  "delete_older expirationLimit t =
     (length (filter (\<lambda>entry. timestamp entry < expirationLimit) (rows t)),
      t\<lparr>rows := filter (\<lambda>entry. \<not> timestamp entry < expirationLimit) (rows t)\<rparr>)"

fun prune_loop ::
  "lib \<Rightarrow> (nat \<Rightarrow> int) \<Rightarrow> (nat \<Rightarrow> dexie_error option) \<Rightarrow> nat \<Rightarrow> string list \<Rightarrow>
   (string \<times> nat) list \<Rightarrow> cache \<Rightarrow> (exn + (string \<times> nat) list) \<times> cache" where
  "prune_loop L clock faults i [] pruned C = (Inr pruned, C)"
| "prune_loop L clock faults i (store # rest) pruned C =
     (case db_table (db C) store of
        None \<Rightarrow>
          if db_member (db C) store
          then (Inl (TypeError ''table.filter(...).delete is not a function''), C)
          else (Inl (TypeError ''table is undefined''), C)
      | Some t \<Rightarrow>
          (let expirationLimit = clock i - getExpiration L (configs C) store
           in case request (db C) (faults i) of
                Some e \<Rightarrow> (Inl (Rejected e), C)
              | None \<Rightarrow>
                  (case delete_older expirationLimit t of
                     (expired, t') \<Rightarrow>
                       prune_loop L clock faults (Suc i) rest
                         (if expired \<noteq> 0 then obj_set store expired pruned else pruned)
                         (C\<lparr>db := set_table store t' (db C)\<rparr>))))"

definition prune ::
  "lib \<Rightarrow> (nat \<Rightarrow> int) \<Rightarrow> (nat \<Rightarrow> dexie_error option) \<Rightarrow> cache \<Rightarrow> stores_arg \<Rightarrow>
   (exn + (string \<times> nat) list) \<times> cache" where
  "prune L clock faults C arg = prune_loop L clock faults 0 (prune_targets C arg) [] C"

section \<open>A sample configuration\<close>

text \<open>
  A small instance for the concrete checks below: a hasher that gives the two orderings
  of \<^verbatim>\<open>{a: 1, b: 2}\<close> one fingerprint, durations of one second and one hour, and a
  database with three stores: \<^verbatim>\<open>app/lookup\<close>, declared by the caller with the
  schema \<^verbatim>\<open>&params, id\<close>, and the built-in \<^verbatim>\<open>indexer/asset\<close> and
  \<^verbatim>\<open>medias/asset\<close> with their schemas \<^verbatim>\<open>&params\<close> and \<^verbatim>\<open>&id\<close>.
\<close>

definition ex_hash :: "jsval \<Rightarrow> string" where
  "ex_hash v =
     (if v = JObj [(''a'', JNum 1), (''b'', JNum 2)] \<or> v = JObj [(''b'', JNum 2), (''a'', JNum 1)]
      then ''h12'' else ''h0'')"

definition ex_lib :: lib where
  "ex_lib = \<lparr>objHash = ex_hash,
             durationStringToMs = (\<lambda>s. if s = Some ''1s'' then 1000 else 3600000)\<rparr>"

definition ex_configs :: configs where
  "ex_configs = \<lparr>namespace = ''algostack'', logExpiration = True,
                 expiration = map_of [(''default'', ''1h''), (''medias/asset'', ''1s'')]\<rparr>"

definition ex_row :: "int \<Rightarrow> int \<Rightarrow> row" where
  "ex_row i t = \<lparr>keyFields = [(''id'', JNum i)], data = JStr ''payload'', timestamp = t\<rparr>"

definition ex_members :: "string list" where
  "ex_members = [''constructor'', ''toString'', ''open'', ''close'', ''delete'', ''name'',
                 ''tables'']"

definition ex_lookup :: table where
  "ex_lookup = \<lparr>primKey = ''params'', indexes = [''id''], rows = []\<rparr>"

definition ex_indexer :: table where
  "ex_indexer = \<lparr>primKey = ''params'', indexes = [], rows = []\<rparr>"

definition ex_medias :: "row list \<Rightarrow> table" where
  "ex_medias rs = \<lparr>primKey = ''id'', indexes = [], rows = rs\<rparr>"

definition ex_db :: dexie where
  "ex_db = \<lparr>tables =
     [(''app/lookup'', ex_lookup),
      (''indexer/asset'', ex_indexer),
      (''medias/asset'', ex_medias [ex_row 1 4000, ex_row 2 8999])],
     members = ex_members, closed = False\<rparr>"

definition ex_cache :: cache where
  "ex_cache = \<lparr>configs = ex_configs, db = ex_db, console = []\<rparr>"

text \<open>The sample cache after the reset: no rows, one warning, the instance closed.\<close>

definition ex_reset :: cache where
  "ex_reset = \<lparr>configs = ex_configs,
     db = \<lparr>tables = [(''app/lookup'', ex_lookup), (''indexer/asset'', ex_indexer),
                       (''medias/asset'', ex_medias [])],
            members = ex_members, closed = True\<rparr>,
     console = [upgrade_warning]\<rparr>"

definition ex_query :: query where
  "ex_query = \<lparr>where_q = None, orderBy = None, order_q = None, filter_q = None,
               includeExpired = False, limit = None\<rparr>"

definition ex_entry :: obj where
  "ex_entry =
     [(''id'', JNum 5), (''params'', JObj [(''a'', JNum 1), (''b'', JNum 2)]),
      (''tags'', JArr [JStr ''x'']), (''note'', JNull), (''gone'', JUndefined)]"

definition ex_find_id :: "int \<Rightarrow> query" where
  "ex_find_id i = ex_query\<lparr>where_q := Some [(''id'', JNum i)]\<rparr>"

definition ex_key1 :: obj where
  "ex_key1 = [(''id'', JNum 5), (''params'', JObj [(''a'', JNum 1), (''b'', JNum 2)])]"

definition ex_key2 :: obj where
  "ex_key2 = [(''params'', JObj [(''b'', JNum 2), (''a'', JNum 1)]), (''id'', JNum 5)]"

definition ex_stamped :: obj where
  "ex_stamped = [(''params'', JStr ''p''), (''id'', JNum 2), (''timestamp'', JNum 0)]"

definition ex_find_key2 :: query where
  "ex_find_key2 = ex_query\<lparr>where_q := Some ex_key2\<rparr>"

definition ex_upgrade :: dexie_error where
  "ex_upgrade = \<lparr>err_name = ''OpenFailedError'', inner_name = Some ''UpgradeError''\<rparr>"

definition ex_abort :: dexie_error where
  "ex_abort = \<lparr>err_name = ''AbortError'', inner_name = None\<rparr>"

section \<open>Auxiliary notions for the proofs\<close>

text \<open>Every message a filter writes belongs to the set \<open>S\<close>.\<close>

definition logs_within :: "row_filter \<Rightarrow> log_msg set \<Rightarrow> bool" where
  "logs_within p S = (\<forall>r. set (snd (p r)) \<subseteq> S)"

fun handle_logs :: "handle \<Rightarrow> log_msg set \<Rightarrow> bool" where
  "handle_logs (Table t) S = True"
| "handle_logs (Collection c) S = logs_within (c_filter c) S"
| "handle_logs Other S = True"

text \<open>
  Which rows a query lets through: the caller's filter, and the expiration filter unless
  \<^verbatim>\<open>includeExpired\<close> is set. \<open>cutoff\<close> is the \<^verbatim>\<open>expirationLimit\<close> of a round of
  \<^verbatim>\<open>prune\<close>.
\<close>

definition passes :: "query \<Rightarrow> row \<Rightarrow> bool" where
  "passes q r = (case filter_q q of None \<Rightarrow> True | Some f \<Rightarrow> f r)"

definition visible :: "lib \<Rightarrow> configs \<Rightarrow> int \<Rightarrow> string \<Rightarrow> query \<Rightarrow> row \<Rightarrow> bool" where
  "visible L c now store q r =
     (passes q r \<and> (includeExpired q \<or> \<not> timestamp r + getExpiration L c store < now))"


lemmas ex_defs = ex_cache_def ex_reset_def ex_db_def ex_lookup_def ex_indexer_def ex_medias_def ex_members_def ex_configs_def ex_lib_def ex_hash_def ex_row_def
  ex_query_def ex_entry_def ex_find_id_def ex_key1_def ex_key2_def ex_stamped_def ex_find_key2_def
  ex_upgrade_def ex_abort_def

lemmas engine_defs = db_table_def request_def indexed_def where_index_def where_equals_def
  failed_def SchemaError_def DatabaseClosedError_def set_table_def row_get_def row_before_def table_put_def
  db_delete_def accept_all_def and_filter_def to_collection_def cmp_equal_def row_matches_def
  has_key_at_def order_rows_def run_collection_def cmp3_def DataError_def errnames_Upgrade_def

lemmas cache_defs = getExpiration_def isExpired_def step_orderBy_def step_order_def
  step_where_def step_filter_def not_expired_def step_expired_def bind_exn_def build_query_def
  found_first_def run_query_def store_not_found_def find_def find_in_def db_member_def no_put_def clearAll_def upgrade_warning_def
  error_names_def handleError_def make_entry_def save_def prune_targets_def delete_older_def
  prune_def hashObjectProps_def hash_step_def obj_delete_def

section \<open>Properties of key normalization\<close>

lemma obj_set_append_hit:
  "k \<notin> fst ` set pre \<Longrightarrow> obj_set k w (pre @ (k, v) # rest) = pre @ (k, w) # rest"
  by (induction pre) auto

lemma obj_delete_append_hit:
  "k \<notin> fst ` set pre \<Longrightarrow> k \<notin> fst ` set rest \<Longrightarrow>
   obj_delete k (pre @ (k, v) # rest) = pre @ rest"
  by (induction pre) (auto simp: obj_delete_def filter_id_conv)

lemma hash_step_append:
  assumes "k \<notin> fst ` set pre" and "k \<notin> fst ` set rest"
  shows "hash_step L (k, v) (pre @ (k, v) # rest) =
         pre @ (case norm_field L v of None \<Rightarrow> [] | Some w \<Rightarrow> [(k, w)]) @ rest"
proof (cases "v = JNull \<or> v = JUndefined")
  case True
  then show ?thesis
    using assms
    by (auto simp: hash_step_def norm_field_def obj_set_append_hit obj_delete_append_hit)
next
  case False
  then show ?thesis
    using assms
    by (cases v) (auto simp: hash_step_def norm_field_def obj_set_append_hit)
qed

lemma fst_set_norm_list: "fst ` set (norm_list L ob) \<subseteq> fst ` set ob"
  by (induction ob) (auto simp: norm_list_def split: option.splits)

lemma fold_hash_step:
  "distinct (map fst ob) \<Longrightarrow> fst ` set pre \<inter> fst ` set ob = {} \<Longrightarrow>
   fold (hash_step L) ob (pre @ ob) = pre @ norm_list L ob"
proof (induction ob arbitrary: pre)
  case Nil
  then show ?case by (simp add: norm_list_def)
next
  case (Cons kv ob)
  obtain k v where kv: "kv = (k, v)" by (cases kv)
  let ?mid = "case norm_field L v of None \<Rightarrow> [] | Some w \<Rightarrow> [(k, w)]"
  have k_pre: "k \<notin> fst ` set pre" and k_ob: "k \<notin> fst ` set ob"
    using Cons.prems kv by auto
  have step: "hash_step L (k, v) (pre @ (k, v) # ob) = (pre @ ?mid) @ ob"
    using hash_step_append [OF k_pre k_ob] by simp
  have dis: "fst ` set (pre @ ?mid) \<inter> fst ` set ob = {}"
  proof (cases "norm_field L v")
    case None
    then show ?thesis using Cons.prems by auto
  next
    case (Some w)
    have "fst ` set (pre @ [(k, w)]) = insert k (fst ` set pre)" by auto
    then show ?thesis using Some Cons.prems k_ob by auto
  qed
  have "fold (hash_step L) ob ((pre @ ?mid) @ ob) = (pre @ ?mid) @ norm_list L ob"
    using Cons.IH [OF _ dis] Cons.prems by simp
  then show ?case
    using step kv by (simp add: norm_list_def split: option.splits)
qed

lemma hashObjectProps_norm_list:
  "distinct (map fst entry) \<Longrightarrow> hashObjectProps L entry = norm_list L entry"
  using fold_hash_step [of entry "[]" L] by (simp add: hashObjectProps_def)

lemma filterCacheEntry_eq: "filterCacheEntry L entry = hashObjectProps L entry"
proof -
  have "(\<lambda>kv result.
        let result1 = (if typeof_object (snd kv) \<and> \<not> isArray (snd kv)
                       then obj_set (fst kv) (JStr (objHash L (snd kv))) result
                       else result)
        in if snd kv = JNull \<or> snd kv = JUndefined then obj_delete (fst kv) result1
           else result1) = hash_step L"
    by (intro ext) (simp add: hash_step_def Let_def)
  then show ?thesis
    by (simp add: filterCacheEntry_def hashObjectProps_def)
qed

lemma distinct_norm_list: "distinct (map fst ob) \<Longrightarrow> distinct (map fst (norm_list L ob))"
proof (induction ob)
  case Nil
  then show ?case by (simp add: norm_list_def)
next
  case (Cons kv ob)
  have "fst kv \<notin> fst ` set (norm_list L ob)"
    using Cons.prems fst_set_norm_list [of L ob] by auto
  then show ?case
    using Cons by (auto simp: norm_list_def split: option.splits)
qed

lemma map_of_norm_list:
  "distinct (map fst ob) \<Longrightarrow>
   map_of (norm_list L ob) k = (case map_of ob k of None \<Rightarrow> None | Some v \<Rightarrow> norm_field L v)"
proof (induction ob)
  case Nil
  then show ?case by (simp add: norm_list_def)
next
  case (Cons kv ob)
  have tl: "norm_list L (kv # ob) =
      (case norm_field L (snd kv) of None \<Rightarrow> [] | Some w \<Rightarrow> [(fst kv, w)]) @ norm_list L ob"
    by (simp add: norm_list_def)
  have notin: "fst kv \<notin> fst ` set (norm_list L ob)"
    using Cons.prems fst_set_norm_list [of L ob] by auto
  show ?case
  proof (cases "k = fst kv")
    case True
    have "map_of (norm_list L ob) k = None"
      using notin True by (simp add: map_of_eq_None_iff)
    then show ?thesis
      using True tl by (cases kv) (auto split: option.splits)
  next
    case False
    then show ?thesis
      using Cons tl by (cases kv) (auto split: option.splits)
  qed
qed

lemma norm_list_values:
  "(k, w) \<in> set (norm_list L ob) \<Longrightarrow> w \<noteq> JNull \<and> w \<noteq> JUndefined"
  by (induction ob) (auto simp: norm_list_def norm_field_def split: option.splits if_splits)

section \<open>Console output of a query\<close>

lemma logs_within_accept_all: "logs_within accept_all S"
  by (simp add: logs_within_def accept_all_def)

lemma logs_within_and:
  assumes "logs_within p S" and "logs_within q S"
  shows "logs_within (and_filter p q) S"
proof -
  have "set (snd (and_filter p q r)) \<subseteq> S" for r
  proof -
    have "set (snd (p r)) \<subseteq> S" and "set (snd (q r)) \<subseteq> S"
      using assms by (simp_all add: logs_within_def)
    then show ?thesis
      by (cases "p r"; cases "q r") (auto simp: and_filter_def split: bool.splits)
  qed
  then show ?thesis by (simp add: logs_within_def)
qed

lemma first_match_logs:
  assumes "logs_within p S"
  shows "set (snd (first_match p rs)) \<subseteq> S"
proof (induction rs)
  case Nil
  show ?case by simp
next
  case (Cons r rs)
  have "set (snd (p r)) \<subseteq> S"
    using assms by (simp add: logs_within_def)
  then show ?case
    using Cons by (cases "p r") (auto split: prod.splits bool.splits)
qed

lemma take_matches_logs:
  assumes "logs_within p S"
  shows "set (snd (take_matches n p rs)) \<subseteq> S"
proof (induction rs arbitrary: n)
  case Nil
  show ?case by (cases n) simp_all
next
  case (Cons r rs)
  have here: "set (snd (p r)) \<subseteq> S"
    using assms by (simp add: logs_within_def)
  show ?case
  proof (cases n)
    case 0
    then show ?thesis by simp
  next
    case (Suc m)
    then show ?thesis
      using here Cons [of m] Cons [of "Suc m"]
      by (cases "p r") (auto split: prod.splits bool.splits)
  qed
qed

lemma all_matches_logs:
  assumes "logs_within p S"
  shows "set (snd (all_matches p rs)) \<subseteq> S"
proof (induction rs)
  case Nil
  show ?case by simp
next
  case (Cons r rs)
  have "set (snd (p r)) \<subseteq> S"
    using assms by (simp add: logs_within_def)
  then show ?case
    using Cons by (cases "p r") (auto split: prod.splits bool.splits)
qed

lemma not_expired_logs:
  "logs_within (not_expired L c now store)
     (if logExpiration c then {ConsoleWarn (''['' @ store @ ''] Cache entry has expired.'')} else {})"
  by (auto simp: logs_within_def not_expired_def isExpired_def Let_def)

lemma h_filter_logs:
  "handle_logs h S \<Longrightarrow> logs_within p S \<Longrightarrow> h_filter p h = Inr h' \<Longrightarrow> handle_logs h' S"
  by (cases h) (auto simp: logs_within_and)

lemma pure_filter_logs: "logs_within (\<lambda>r. (f r, [])) S"
  by (simp add: logs_within_def)

lemma where_equals_fields:
  "c_filter (where_equals t crit) = accept_all \<and> c_limit (where_equals t crit) = None"
  by (simp add: where_equals_def failed_def to_collection_def split: option.splits)

lemma h_orderBy_logs: "h_orderBy k h = Inr h' \<Longrightarrow> handle_logs h' S"
  by (cases h) (auto simp: logs_within_accept_all to_collection_def failed_def)

lemma h_desc_logs: "handle_logs h S \<Longrightarrow> h_desc h = Inr h' \<Longrightarrow> handle_logs h' S"
  by (cases h) auto

lemma h_where_logs: "h_where w h = Inr h' \<Longrightarrow> handle_logs h' S"
  by (cases h) (auto simp: logs_within_accept_all where_equals_fields)

lemma h_limit_logs: "handle_logs h S \<Longrightarrow> h_limit n h = Inr h' \<Longrightarrow> handle_logs h' S"
  by (cases h) (auto simp: logs_within_accept_all to_collection_def)

lemma build_query_logs:
  assumes "build_query L c now store q h0 = Inr h" and "\<forall>S. handle_logs h0 S"
  shows "handle_logs h
     (if logExpiration c then {ConsoleWarn (''['' @ store @ ''] Cache entry has expired.'')} else {})"
    (is "handle_logs h ?S")
proof -
  from assms obtain h1 h2 h3 h4 where
    s1: "step_orderBy q h0 = Inr h1" and
    s2: "step_order q h1 = Inr h2" and
    s3: "step_where L q h2 = Inr h3" and
    s4: "step_filter q h3 = Inr h4" and
    s5: "step_expired L c now store q h4 = Inr h"
    by (auto simp: build_query_def bind_exn_def split: sum.splits)
  have l1: "handle_logs h1 ?S"
    using s1 assms(2) h_orderBy_logs [of _ h0 h1 ?S]
    by (auto simp: step_orderBy_def split: option.splits if_splits)
  have l2: "handle_logs h2 ?S"
    using s2 l1 h_desc_logs [of h1 ?S h2]
    by (auto simp: step_order_def split: option.splits if_splits)
  have l3: "handle_logs h3 ?S"
    using s3 l2 h_where_logs [of _ h2 h3 ?S]
    by (auto simp: step_where_def split: option.splits)
  have l4: "handle_logs h4 ?S"
    using s4 l3 h_filter_logs [OF l3 pure_filter_logs, of _ h4]
    by (auto simp: step_filter_def split: option.splits)
  have ne: "logs_within (not_expired L c now store) ?S"
    by (rule not_expired_logs)
  show ?thesis
    using s5 l4 h_filter_logs [OF l4 ne, of h]
    by (auto simp: step_expired_def split: if_splits)
qed

lemma h_first_logs:
  "handle_logs h S \<Longrightarrow> set (snd (h_first fault h)) \<subseteq> S"
proof (cases h)
  case (Table t)
  then show ?thesis by simp
next
  case (Collection c)
  assume "handle_logs h S"
  then have "set (snd (first_match (c_filter c) (c_rows c))) \<subseteq> S"
    using Collection by (simp add: first_match_logs)
  then show ?thesis
    using Collection by (auto split: option.splits prod.splits)
next
  case Other
  then show ?thesis by simp
qed

lemma h_toArray_logs:
  "handle_logs h S \<Longrightarrow> set (snd (h_toArray fault h)) \<subseteq> S"
proof (cases h)
  case (Table t)
  then show ?thesis by (simp split: option.splits)
next
  case (Collection c)
  assume "handle_logs h S"
  then have "set (snd (run_collection c)) \<subseteq> S"
    using Collection
    by (simp add: run_collection_def take_matches_logs all_matches_logs split: option.splits)
  then show ?thesis
    using Collection by (auto split: option.splits prod.splits)
next
  case Other
  then show ?thesis by simp
qed

lemma run_query_logs:
  assumes "handle_logs h S"
  shows "set (snd (run_query fault q h)) \<subseteq> S"
proof (cases "limit q")
  case None
  then show ?thesis
    using h_first_logs [OF assms, of fault]
    by (auto simp: run_query_def split: prod.splits sum.splits)
next
  case (Some n)
  show ?thesis
  proof (cases "h_limit n h")
    case (Inl e)
    then show ?thesis using Some by (simp add: run_query_def)
  next
    case (Inr h')
    have "handle_logs h' S" using assms Inr by (rule h_limit_logs)
    then show ?thesis
      using Some Inr h_toArray_logs [of h' S fault]
      by (auto simp: run_query_def split: prod.splits sum.splits)
  qed
qed

section \<open>Results of a query, rounds of the sweep\<close>



lemma all_matches_eq: "fst (all_matches p rs) = filter (\<lambda>r. fst (p r)) rs"
  by (induction rs) (auto split: prod.splits bool.splits)

lemma and_filter_verdict: "fst (and_filter p q r) = (fst (p r) \<and> fst (q r))"
  by (auto simp: and_filter_def split: prod.splits bool.splits)

lemma not_expired_verdict:
  "fst (not_expired L c now store r) = (\<not> timestamp r + getExpiration L c store < now)"
  by (simp add: not_expired_def isExpired_def Let_def)




lemma build_query_where:
  assumes "where_q q = Some w" and "orderBy q = None" and "order_q q = None"
  shows "\<exists>c. build_query L cfg now store q (Table t) = Inr (Collection c)
            \<and> c_rows c = c_rows (where_equals t (hashObjectProps L w))
            \<and> c_error c = c_error (where_equals t (hashObjectProps L w))
            \<and> c_limit c = None
            \<and> (\<forall>r. fst (c_filter c r) = visible L cfg now store q r)"
  using assms where_equals_fields [of t "hashObjectProps L w"]
  by (auto simp: build_query_def bind_exn_def step_orderBy_def step_order_def step_where_def
        step_filter_def step_expired_def visible_def passes_def and_filter_verdict
        not_expired_verdict accept_all_def split: option.splits)



lemma find_closed:
  assumes "db_table (db C) store = Some t" and "closed (db C)"
  shows "\<exists>x. find L now None C store q = (Inl x, C)"
proof (cases "build_query L (configs C) now store q (Table t)")
  case (Inl e)
  then show ?thesis using assms(1) by (simp add: find_def find_in_def)
next
  case (Inr h)
  have rq: "request (db C) None = Some DatabaseClosedError"
    using assms(2) by (simp add: request_def)
  have "\<exists>x. run_query (Some DatabaseClosedError) q h = (Inl x, [])"
  proof (cases "limit q")
    case None
    then show ?thesis by (cases h) (simp_all add: run_query_def)
  next
    case (Some n)
    then show ?thesis
      by (cases h) (simp_all add: run_query_def to_collection_def)
  qed
  then show ?thesis
    using assms(1) Inr rq by (auto simp: find_def find_in_def)
qed

lemma find_where_closed:
  assumes "db_table (db C) store = Some t"
    and "where_q q = Some w" and "orderBy q = None" and "order_q q = None"
    and "closed (db C)"
  shows "find L now None C store q = (Inl (Rejected DatabaseClosedError), C)"
proof -
  obtain c where bq: "build_query L (configs C) now store q (Table t) = Inr (Collection c)"
    using build_query_where [OF assms(2-4), of L "configs C" now store t] by blast
  have rq: "request (db C) None = Some DatabaseClosedError"
    using assms(5) by (simp add: request_def)
  show ?thesis
    using assms(1) bq rq
    by (simp add: find_def find_in_def run_query_def split: option.splits)
qed





lemma find_in_Other:
  "\<exists>msg. find_in L now fault C store q Other = (Inl (TypeError msg), C)"
proof (cases "build_query L (configs C) now store q Other")
  case (Inl e)
  then have "\<exists>msg. e = TypeError msg"
    by (auto simp: build_query_def bind_exn_def step_orderBy_def step_order_def step_where_def
        step_filter_def step_expired_def split: option.splits if_splits sum.splits)
  then show ?thesis using Inl by (auto simp: find_in_def)
next
  case (Inr h)
  then have "h = Other"
    by (auto simp: build_query_def bind_exn_def step_orderBy_def step_order_def step_where_def
        step_filter_def step_expired_def split: option.splits if_splits sum.splits)
  then show ?thesis
    using Inr by (auto simp: find_in_def run_query_def split: option.splits)
qed

lemma find_in_frame:
  "db (snd (find_in L now fault C store q h0)) = db C
   \<and> configs (snd (find_in L now fault C store q h0)) = configs C"
  by (auto simp: find_in_def split: sum.splits prod.splits)



lemma db_table_set_table:
  "db_table (set_table s t' d) s' =
     (if s' = s then map_option (\<lambda>_. t') (db_table d s) else db_table d s')"
proof -
  have "map_of (map (\<lambda>p. if fst p = s then (fst p, t') else p) xs) s' =
        (if s' = s then map_option (\<lambda>_. t') (map_of xs s) else map_of xs s')" for xs
    by (induction xs) auto
  then show ?thesis
    by (simp add: db_table_def set_table_def)
qed

lemma closed_set_table: "closed (set_table s t d) = closed d"
  by (simp add: set_table_def)


section \<open>Writing an entry and reading it back\<close>

lemma insert_row_split:
  "\<exists>ys zs. insert_row k r xs = ys @ r # zs \<and> xs = ys @ zs"
proof (induction xs)
  case Nil
  then show ?case by simp
next
  case (Cons x xs)
  then obtain ys zs where "insert_row k r xs = ys @ r # zs" "xs = ys @ zs" by blast
  then show ?case
    by (cases "row_before k r x") (force intro: exI [of _ "[]"] exI [of _ "x # ys"])+
qed

lemma filter_insert_row_hit:
  "P r \<Longrightarrow> filter P xs = [] \<Longrightarrow> filter P (insert_row k r xs) = [r]"
  using insert_row_split [of k r xs] by auto

lemma filter_insert_row_miss:
  "\<not> P r \<Longrightarrow> filter P (insert_row k r xs) = filter P xs"
  using insert_row_split [of k r xs] by auto

lemma set_insert_row: "set (insert_row k r xs) = insert r (set xs)"
  using insert_row_split [of k r xs] by auto

lemma length_insert_row: "length (insert_row k r xs) = Suc (length xs)"
  using insert_row_split [of k r xs] by auto

lemma map_of_obj_delete:
  "map_of (obj_delete k xs) k' = (if k' = k then None else map_of xs k')"
  by (induction xs) (auto simp: obj_delete_def)

lemma row_get_make_entry:
  "k \<noteq> ''data'' \<Longrightarrow> k \<noteq> ''timestamp'' \<Longrightarrow> row_get (make_entry hashed d now) k = map_of hashed k"
  by (simp add: row_get_def make_entry_def map_of_obj_delete)

lemma table_put_ok:
  assumes "row_get entry (primKey t) = Some key" and "valid_key key"
  shows "table_put None entry t =
     Inr (t\<lparr>rows := insert_row (primKey t) entry
                (filter (\<lambda>x. row_get x (primKey t) \<noteq> Some key) (rows t))\<rparr>)"
  using assms by (simp add: table_put_def)

lemma save_ok:
  assumes "db_table (db C) store = Some t"
    and "map_of (hashObjectProps L entry) (primKey t) = Some key" and "valid_key key"
    and "primKey t \<noteq> ''data''" and "primKey t \<noteq> ''timestamp''"
    and "\<not> closed (db C)"
  shows "save L now None C store d entry =
     (Inr (), C\<lparr>db := set_table store
        (t\<lparr>rows := insert_row (primKey t) (make_entry (hashObjectProps L entry) d now)
                (filter (\<lambda>x. row_get x (primKey t) \<noteq> Some key) (rows t))\<rparr>) (db C)\<rparr>)"
proof -
  have "row_get (make_entry (hashObjectProps L entry) d now) (primKey t) = Some key"
    using assms(2,4,5) by (simp add: row_get_make_entry)
  then show ?thesis
    using assms(1,3,6) by (simp add: save_def table_put_ok request_def)
qed

lemma save_table:
  assumes "db_table (db C) store = Some t"
    and "map_of (hashObjectProps L entry) (primKey t) = Some key" and "valid_key key"
    and "primKey t \<noteq> ''data''" and "primKey t \<noteq> ''timestamp''"
    and "\<not> closed (db C)"
  shows "db_table (db (snd (save L now None C store d entry))) store =
     Some (t\<lparr>rows := insert_row (primKey t) (make_entry (hashObjectProps L entry) d now)
                (filter (\<lambda>x. row_get x (primKey t) \<noteq> Some key) (rows t))\<rparr>)"
  using save_ok [OF assms] assms(1) by (simp add: db_table_set_table)

lemma save_open:
  assumes "db_table (db C) store = Some t"
    and "map_of (hashObjectProps L entry) (primKey t) = Some key" and "valid_key key"
    and "primKey t \<noteq> ''data''" and "primKey t \<noteq> ''timestamp''"
    and "\<not> closed (db C)"
  shows "\<not> closed (db (snd (save L now None C store d entry)))"
  using save_ok [OF assms] assms(6) by (simp add: closed_set_table)













section \<open>The reset\<close>

lemma db_table_db_delete:
  "db_table (db_delete d) s = map_option (\<lambda>t. t\<lparr>rows := []\<rparr>) (db_table d s)"
proof -
  have "map_of (map (\<lambda>p. (fst p, (snd p)\<lparr>rows := []\<rparr>)) xs) s =
        map_option (\<lambda>t. t\<lparr>rows := []\<rparr>) (map_of xs s)" for xs :: "(string \<times> table) list"
    by (induction xs) auto
  then show ?thesis
    by (simp add: db_table_def db_delete_def)
qed

lemma save_upgrade_failure:
  assumes "db_table (db C) store = Some t" and "errnames_Upgrade \<in> set (error_names e)"
  shows "save L now (Some e) C store d entry =
     (Inr (), C\<lparr>console := console C @ [upgrade_warning], db := db_delete (db C)\<rparr>)"
  using assms by (simp add: save_def table_put_def handleError_def clearAll_def request_def)

lemma save_closed:
  assumes "db_table (db C) store = Some t" and "closed (db C)"
  shows "save L now None C store d entry = (Inr (), C)"
  using assms
  by (simp add: save_def table_put_def handleError_def request_def error_names_def
      DatabaseClosedError_def errnames_Upgrade_def)

section \<open>Claims\<close>

subsection \<open>C1\<close>




subsection \<open>C2\<close>

text \<open>
  C2 does not hold of the code. \<^verbatim>\<open>prune\<close> of a store name the schema does not declare
  throws a \<^verbatim>\<open>TypeError\<close>, where \<^verbatim>\<open>find\<close> and \<^verbatim>\<open>save\<close> check the table first. A
  failure of the read request of \<^verbatim>\<open>find\<close>, or of the deletion request of \<^verbatim>\<open>prune\<close>,
  reaches the caller. A failure of the write of \<^verbatim>\<open>save\<close> that is not an upgrade error
  is dropped without a word on the console.
\<close>

theorem caching_errors_reach_the_caller:
  "(db_table (db C) store = None \<longrightarrow>
      (\<exists>msg. prune L clock faults C (OneStore store) = (Inl (TypeError msg), C)))
   \<and> (db_table (db C) store = Some t \<longrightarrow> where_q q = Some w \<longrightarrow> orderBy q = None
        \<longrightarrow> order_q q = None \<longrightarrow>
      find L now (Some e) C store q = (Inl (Rejected e), C))
   \<and> (db_table (db C) store = Some t \<longrightarrow> faults 0 = Some e \<longrightarrow>
      prune L clock faults C (OneStore store) = (Inl (Rejected e), C))
   \<and> (db_table (db C) store = Some t \<longrightarrow> errnames_Upgrade \<notin> set (error_names e) \<longrightarrow>
      save L now (Some e) C store d entry = (Inr (), C))"
proof -
  have a: "db_table (db C) store = None \<longrightarrow>
      (\<exists>msg. prune L clock faults C (OneStore store) = (Inl (TypeError msg), C))"
    by (simp add: prune_def prune_targets_def)
  have b: "find L now (Some e) C store q = (Inl (Rejected e), C)"
    if h: "db_table (db C) store = Some t" "where_q q = Some w" "orderBy q = None"
      "order_q q = None"
  proof -
    obtain c where "build_query L (configs C) now store q (Table t) = Inr (Collection c)"
      using build_query_where [OF h(2-4), of L "configs C" now store t] by blast
    then show ?thesis
      using h(1) by (simp add: find_def find_in_def run_query_def request_def split: option.splits)
  qed
  have c: "db_table (db C) store = Some t \<longrightarrow> faults 0 = Some e \<longrightarrow>
      prune L clock faults C (OneStore store) = (Inl (Rejected e), C)"
    by (simp add: prune_def prune_targets_def request_def)
  have d: "db_table (db C) store = Some t \<longrightarrow> errnames_Upgrade \<notin> set (error_names e) \<longrightarrow>
      save L now (Some e) C store d entry = (Inr (), C)"
    by (simp add: save_def table_put_def handleError_def request_def)
  show ?thesis
    using a b c d by blast
qed

theorem caching_errors_reach_the_caller_witness:
  "db_table (db ex_cache) ''nope'' = None
   \<and> prune ex_lib (\<lambda>i. 9000) (\<lambda>i. None) ex_cache (OneStore ''nope'') =
       (Inl (TypeError ''table is undefined''), ex_cache)
   \<and> find ex_lib 9000 (Some ex_abort) ex_cache ''medias/asset'' (ex_find_id 2) =
       (Inl (Rejected ex_abort), ex_cache)
   \<and> prune ex_lib (\<lambda>i. 9000) (\<lambda>i. Some ex_abort) ex_cache (OneStore ''medias/asset'') =
       (Inl (Rejected ex_abort), ex_cache)
   \<and> save ex_lib 9000 (Some ex_abort) ex_cache ''medias/asset'' (JStr ''payload'')
        [(''id'', JNum 7)] = (Inr (), ex_cache)"
proof -
  let ?t = "(ex_medias [ex_row 1 4000, ex_row 2 8999])"
  have n: "db_table (db ex_cache) ''nope'' = None"
    and t: "db_table (db ex_cache) ''medias/asset'' = Some ?t"
    by (simp_all add: ex_cache_def ex_db_def db_table_def)
  have q: "where_q (ex_find_id 2) = Some [(''id'', JNum 2)]" "orderBy (ex_find_id 2) = None"
    "order_q (ex_find_id 2) = None"
    by (simp_all add: ex_find_id_def ex_query_def)
  have u: "errnames_Upgrade \<notin> set (error_names ex_abort)"
    by (simp add: ex_abort_def error_names_def errnames_Upgrade_def)
  have p1: "prune ex_lib (\<lambda>i. 9000) (\<lambda>i. None) ex_cache (OneStore ''nope'') =
       (Inl (TypeError ''table is undefined''), ex_cache)"
    by (simp add: ex_defs engine_defs cache_defs)
  have rest: "find ex_lib 9000 (Some ex_abort) ex_cache ''medias/asset'' (ex_find_id 2) =
       (Inl (Rejected ex_abort), ex_cache)
     \<and> prune ex_lib (\<lambda>i. 9000) (\<lambda>i. Some ex_abort) ex_cache (OneStore ''medias/asset'') =
       (Inl (Rejected ex_abort), ex_cache)
     \<and> save ex_lib 9000 (Some ex_abort) ex_cache ''medias/asset'' (JStr ''payload'')
        [(''id'', JNum 7)] = (Inr (), ex_cache)"
    using caching_errors_reach_the_caller [of ex_cache "''medias/asset''" ex_lib "\<lambda>i. 9000"
        "\<lambda>i. Some ex_abort" ?t "ex_find_id 2" "[(''id'', JNum 2)]" 9000 ex_abort
        "JStr ''payload''" "[(''id'', JNum 7)]"] t q u
    by blast
  show ?thesis
    using n p1 rest by blast
qed

subsection \<open>C3\<close>



subsection \<open>C4\<close>



subsection \<open>C5\<close>

text \<open>
  C5. In a declared store of an open database (the instance is closed only by the reset
  of \<^verbatim>\<open>clearAll\<close>) whose primary key is among the normalized key fields, with a
  valid value: after two saves with the same key fields, the first of payload \<open>d1\<close> at
  time \<open>n1\<close> and the second of payload \<open>d2\<close> at time \<open>n2\<close>, the store holds exactly
  one entry of that key; it carries \<open>d2\<close> and the timestamp \<open>n2\<close>, and the entries of
  other keys are as before. The entry a save writes always carries the clock reading of
  that save as its timestamp, whatever \<^verbatim>\<open>timestamp\<close> or \<^verbatim>\<open>data\<close> property the caller's
  key-field object had.
\<close>

theorem save_overwrites_by_key:
  assumes "db_table (db C) store = Some t"
    and "map_of (hashObjectProps L entry) (primKey t) = Some key" and "valid_key key"
    and "primKey t \<noteq> ''data''" and "primKey t \<noteq> ''timestamp''"
    and "\<not> closed (db C)"
  shows "\<exists>t1 t2.
       db_table (db (snd (save L n1 None C store d1 entry))) store = Some t1
     \<and> filter (\<lambda>r. row_get r (primKey t) = Some key) (rows t1) =
         [make_entry (hashObjectProps L entry) d1 n1]
     \<and> db_table (db (snd (save L n2 None (snd (save L n1 None C store d1 entry)) store d2 entry)))
         store = Some t2
     \<and> primKey t2 = primKey t
     \<and> filter (\<lambda>r. row_get r (primKey t) = Some key) (rows t2) =
         [make_entry (hashObjectProps L entry) d2 n2]
     \<and> filter (\<lambda>r. row_get r (primKey t) \<noteq> Some key) (rows t2) =
         filter (\<lambda>r. row_get r (primKey t) \<noteq> Some key) (rows t)
     \<and> length (rows t2) = length (rows t1)
     \<and> data (make_entry (hashObjectProps L entry) d2 n2) = d2
     \<and> timestamp (make_entry (hashObjectProps L entry) d2 n2) = n2
     \<and> row_get (make_entry (hashObjectProps L entry) d2 n2) ''timestamp'' = Some (JNum n2)
     \<and> row_get (make_entry (hashObjectProps L entry) d2 n2) ''data'' = Some d2"
proof -
  let ?pk = "primKey t"
  let ?e1 = "make_entry (hashObjectProps L entry) d1 n1"
  let ?e2 = "make_entry (hashObjectProps L entry) d2 n2"
  let ?other = "\<lambda>x. row_get x ?pk \<noteq> Some key"
  let ?same = "\<lambda>x. row_get x ?pk = Some key"
  let ?t1 = "t\<lparr>rows := insert_row ?pk ?e1 (filter ?other (rows t))\<rparr>"
  let ?t2 = "?t1\<lparr>rows := insert_row ?pk ?e2 (filter ?other (rows ?t1))\<rparr>"
  let ?C1 = "snd (save L n1 None C store d1 entry)"
  have k1: "?same ?e1" and k2: "?same ?e2"
    using assms(2,4,5) by (simp_all add: row_get_make_entry)
  have s1: "db_table (db ?C1) store = Some ?t1"
    using save_table [OF assms] .
  have pk1: "primKey ?t1 = ?pk" by simp
  have o1: "\<not> closed (db ?C1)"
    using save_open [OF assms] .
  have s2: "db_table (db (snd (save L n2 None ?C1 store d2 entry))) store = Some ?t2"
    using save_table [OF s1, of L entry key n2 d2] assms(2-5) o1 by simp
  have none: "filter ?same (filter ?other xs) = []" for xs
    by (induction xs) auto
  have oth1: "filter ?other (rows ?t1) = filter ?other (rows t)"
    using k1 by (simp add: filter_insert_row_miss)
  have f1: "filter ?same (rows ?t1) = [?e1]"
    using filter_insert_row_hit [of ?same ?e1 "filter ?other (rows t)" ?pk] k1 none by simp
  have f2: "filter ?same (rows ?t2) = [?e2]"
    using filter_insert_row_hit [of ?same ?e2 "filter ?other (rows ?t1)" ?pk] k2 none by simp
  have o2: "filter ?other (rows ?t2) = filter ?other (rows t)"
    using k2 oth1 by (simp add: filter_insert_row_miss)
  have len: "length (rows ?t2) = length (rows ?t1)"
    using oth1 by (simp add: length_insert_row)
  have fields: "data ?e2 = d2 \<and> timestamp ?e2 = n2
      \<and> row_get ?e2 ''timestamp'' = Some (JNum n2) \<and> row_get ?e2 ''data'' = Some d2"
    by (simp add: make_entry_def row_get_def)
  show ?thesis
    using s1 f1 s2 f2 o2 len fields by (intro exI [of _ ?t1] exI [of _ ?t2]) simp
qed

theorem save_overwrites_by_key_witness:
  "db_table (db ex_cache) ''medias/asset'' =
      Some (ex_medias [ex_row 1 4000, ex_row 2 8999])
   \<and> map_of (hashObjectProps ex_lib [(''id'', JNum 2), (''timestamp'', JNum 0)]) ''id'' =
       Some (JNum 2)
   \<and> valid_key (JNum 2)
   \<and> \<not> closed (db ex_cache)
   \<and> db_table (db (snd (save ex_lib 9500 None
          (snd (save ex_lib 9000 None ex_cache ''medias/asset'' (JStr ''first'')
                  [(''id'', JNum 2), (''timestamp'', JNum 0)]))
          ''medias/asset'' (JStr ''second'') [(''id'', JNum 2), (''timestamp'', JNum 0)])))
        ''medias/asset'' =
      Some (ex_medias [ex_row 1 4000,
                       \<lparr>keyFields = [(''id'', JNum 2)], data = JStr ''second'',
                          timestamp = 9500\<rparr>])"
proof -
  have t: "db_table (db ex_cache) ''medias/asset'' =
      Some (ex_medias [ex_row 1 4000, ex_row 2 8999])"
    by (simp add: ex_cache_def ex_db_def db_table_def)
  have k: "map_of (hashObjectProps ex_lib [(''id'', JNum 2), (''timestamp'', JNum 0)])
      (primKey (ex_medias [ex_row 1 4000, ex_row 2 8999])) = Some (JNum 2)"
    by (simp add: hashObjectProps_def hash_step_def ex_medias_def)
  have v: "valid_key (JNum 2)" by simp
  have p: "primKey (ex_medias [ex_row 1 4000, ex_row 2 8999]) \<noteq> ''data''"
    "primKey (ex_medias [ex_row 1 4000, ex_row 2 8999]) \<noteq> ''timestamp''"
    by (simp_all add: ex_medias_def)
  have o: "\<not> closed (db ex_cache)"
    by (simp add: ex_cache_def ex_db_def)
  have ev: "db_table (db (snd (save ex_lib 9500 None
          (snd (save ex_lib 9000 None ex_cache ''medias/asset'' (JStr ''first'')
                  [(''id'', JNum 2), (''timestamp'', JNum 0)]))
          ''medias/asset'' (JStr ''second'') [(''id'', JNum 2), (''timestamp'', JNum 0)])))
        ''medias/asset'' =
      Some (ex_medias [ex_row 1 4000,
                       \<lparr>keyFields = [(''id'', JNum 2)], data = JStr ''second'',
                          timestamp = 9500\<rparr>])"
    by (simp add: ex_defs engine_defs cache_defs)
  show ?thesis
    using save_overwrites_by_key [OF t k v p o, of 9000 "JStr ''first''" 9500 "JStr ''second''"]
      t k v o ev
    by (simp add: ex_medias_def)
qed

subsection \<open>C6\<close>

text \<open>
  C6 does not hold of the code. When the write of a \<^verbatim>\<open>save\<close> to a declared store
  fails with an error whose name, or whose inner error's name, is \<^verbatim>\<open>UpgradeError\<close>,
  the call returns normally, one warning is written to the console and \<^verbatim>\<open>clearAll\<close>
  deletes the database: every store loses its rows. But \<^verbatim>\<open>db.delete()\<close> also closes
  the instance, and the module never opens it again. From then on a \<^verbatim>\<open>save\<close> to a
  declared store is dropped without a word, no \<^verbatim>\<open>find\<close> on a declared store returns
  a result, and a where-query is rejected with \<^verbatim>\<open>DatabaseClosedError\<close>: the round
  trip after the reset fails. And when the operation that fails with the upgrade error is
  the read of a \<^verbatim>\<open>find\<close> or the deletion of a \<^verbatim>\<open>prune\<close>, there is no reset at all:
  the error reaches the caller, nothing is written to the console and nothing is deleted.
\<close>

theorem upgrade_reset_closes_the_database:
  assumes "db_table (db C) store = Some t"
    and "errnames_Upgrade \<in> set (error_names e)"
    and "db_table (db C) store' = Some t'"
    and "where_q q = Some w" and "orderBy q = None" and "order_q q = None"
  shows "save L now (Some e) C store d entry =
           (Inr (), C\<lparr>console := console C @ [upgrade_warning], db := db_delete (db C)\<rparr>)
       \<and> closed (db (snd (save L now (Some e) C store d entry)))
       \<and> db_table (db (snd (save L now (Some e) C store d entry))) store' =
           Some (t'\<lparr>rows := []\<rparr>)
       \<and> save L n1 None (snd (save L now (Some e) C store d entry)) store' d1 e1 =
           (Inr (), snd (save L now (Some e) C store d entry))
       \<and> find L n2 None (snd (save L now (Some e) C store d entry)) store' q =
           (Inl (Rejected DatabaseClosedError), snd (save L now (Some e) C store d entry))
       \<and> (\<forall>q'. \<exists>x. fst (find L n2 None (snd (save L now (Some e) C store d entry)) store' q') =
                      Inl x)
       \<and> find L now (Some e) C store q = (Inl (Rejected e), C)
       \<and> prune L clock (\<lambda>i. Some e) C (OneStore store) = (Inl (Rejected e), C)"
proof -
  let ?R = "C\<lparr>console := console C @ [upgrade_warning], db := db_delete (db C)\<rparr>"
  have s: "save L now (Some e) C store d entry = (Inr (), ?R)"
    using assms(1,2) by (rule save_upgrade_failure)
  have cl: "closed (db ?R)"
    by (simp add: db_delete_def)
  have tb: "db_table (db ?R) store' = Some (t'\<lparr>rows := []\<rparr>)"
    using assms(3) by (simp add: db_table_db_delete)
  have sv: "save L n1 None ?R store' d1 e1 = (Inr (), ?R)"
    using tb cl by (rule save_closed)
  have fw: "find L n2 None ?R store' q = (Inl (Rejected DatabaseClosedError), ?R)"
    using tb assms(4-6) cl by (rule find_where_closed)
  have fa: "\<exists>x. fst (find L n2 None ?R store' q') = Inl x" for q'
    using find_closed [OF tb cl, of L n2 q'] by auto
  have rd: "find L now (Some e) C store q = (Inl (Rejected e), C)"
  proof -
    obtain c where "build_query L (configs C) now store q (Table t) = Inr (Collection c)"
      using build_query_where [OF assms(4-6), of L "configs C" now store t] by blast
    then show ?thesis
      using assms(1)
      by (simp add: find_def find_in_def run_query_def request_def split: option.splits)
  qed
  have pr: "prune L clock (\<lambda>i. Some e) C (OneStore store) = (Inl (Rejected e), C)"
    using assms(1) by (simp add: prune_def prune_targets_def request_def)
  show ?thesis
    unfolding s using cl tb sv fw fa rd pr by simp
qed

theorem upgrade_reset_closes_the_database_witness:
  "db_table (db ex_cache) ''medias/asset'' = Some (ex_medias [ex_row 1 4000, ex_row 2 8999])
   \<and> errnames_Upgrade \<in> set (error_names ex_upgrade)
   \<and> where_q (ex_find_id 7) = Some [(''id'', JNum 7)]
   \<and> save ex_lib 9000 (Some ex_upgrade) ex_cache ''medias/asset'' (JStr ''payload'')
        [(''id'', JNum 7)] = (Inr (), ex_reset)
   \<and> db ex_reset =
        \<lparr>tables = [(''app/lookup'', ex_lookup), (''indexer/asset'', ex_indexer),
                    (''medias/asset'', ex_medias [])],
           members = ex_members, closed = True\<rparr>
   \<and> console ex_reset = [upgrade_warning]
   \<and> save ex_lib 9100 None ex_reset ''medias/asset'' (JStr ''again'') [(''id'', JNum 7)] =
        (Inr (), ex_reset)
   \<and> find ex_lib 9200 None ex_reset ''medias/asset'' (ex_find_id 7) =
        (Inl (Rejected DatabaseClosedError), ex_reset)
   \<and> find ex_lib 9000 (Some ex_upgrade) ex_cache ''medias/asset'' (ex_find_id 2) =
        (Inl (Rejected ex_upgrade), ex_cache)
   \<and> prune ex_lib (\<lambda>i. 9000) (\<lambda>i. Some ex_upgrade) ex_cache (OneStore ''medias/asset'') =
        (Inl (Rejected ex_upgrade), ex_cache)"
proof -
  let ?t = "ex_medias [ex_row 1 4000, ex_row 2 8999]"
  have t: "db_table (db ex_cache) ''medias/asset'' = Some ?t"
    by (simp add: ex_cache_def ex_db_def db_table_def)
  have u: "errnames_Upgrade \<in> set (error_names ex_upgrade)"
    by (simp add: ex_upgrade_def error_names_def errnames_Upgrade_def)
  have q7: "where_q (ex_find_id 7) = Some [(''id'', JNum 7)]" "orderBy (ex_find_id 7) = None"
    "order_q (ex_find_id 7) = None"
    by (simp_all add: ex_find_id_def ex_query_def)
  have q2: "where_q (ex_find_id 2) = Some [(''id'', JNum 2)]" "orderBy (ex_find_id 2) = None"
    "order_q (ex_find_id 2) = None"
    by (simp_all add: ex_find_id_def ex_query_def)
  have r: "ex_cache\<lparr>console := console ex_cache @ [upgrade_warning],
                      db := db_delete (db ex_cache)\<rparr> = ex_reset"
    by (simp add: ex_reset_def ex_cache_def ex_db_def db_delete_def ex_lookup_def
        ex_indexer_def ex_medias_def)
  have dr: "db ex_reset =
        \<lparr>tables = [(''app/lookup'', ex_lookup), (''indexer/asset'', ex_indexer),
                    (''medias/asset'', ex_medias [])],
           members = ex_members, closed = True\<rparr>"
    and cr: "console ex_reset = [upgrade_warning]"
    by (simp_all add: ex_reset_def)
  note a = upgrade_reset_closes_the_database [OF t u t q7,
      of ex_lib 9000 "JStr ''payload''" "[(''id'', JNum 7)]" 9100 "JStr ''again''"
         "[(''id'', JNum 7)]" 9200 "\<lambda>i. 9000"]
  note b = upgrade_reset_closes_the_database [OF t u t q2,
      of ex_lib 9000 "JStr ''payload''" "[(''id'', JNum 7)]" 9100 "JStr ''again''"
         "[(''id'', JNum 7)]" 9200 "\<lambda>i. 9000"]
  have s: "save ex_lib 9000 (Some ex_upgrade) ex_cache ''medias/asset'' (JStr ''payload'')
        [(''id'', JNum 7)] = (Inr (), ex_reset)"
    using a r by simp
  have sv: "save ex_lib 9100 None ex_reset ''medias/asset'' (JStr ''again'') [(''id'', JNum 7)] =
        (Inr (), ex_reset)"
    using a unfolding s by simp
  have fw: "find ex_lib 9200 None ex_reset ''medias/asset'' (ex_find_id 7) =
        (Inl (Rejected DatabaseClosedError), ex_reset)"
    using a unfolding s by simp
  have rd: "find ex_lib 9000 (Some ex_upgrade) ex_cache ''medias/asset'' (ex_find_id 2) =
        (Inl (Rejected ex_upgrade), ex_cache)"
    using b by blast
  have pr: "prune ex_lib (\<lambda>i. 9000) (\<lambda>i. Some ex_upgrade) ex_cache (OneStore ''medias/asset'') =
        (Inl (Rejected ex_upgrade), ex_cache)"
    using a by blast
  show ?thesis
    by (intro conjI) (rule t u q7(1) s dr cr sv fw rd pr)+
qed

subsection \<open>C7\<close>

text \<open>
  C7. Key normalization, for every key-field or where object: a top-level property whose
  value is an object and not an array is replaced by its fingerprint, a scalar or an
  array passes through unchanged, a property whose value is null or undefined is
  dropped, so that no value of the result is null or undefined. The same holds of
  \<^verbatim>\<open>filterCacheEntry\<close>, which computes the same result.
\<close>

theorem hashObjectProps_normalizes:
  assumes "distinct (map fst entry)"
  shows "(\<forall>k. map_of (hashObjectProps L entry) k =
            (case map_of entry k of
               None \<Rightarrow> None
             | Some v \<Rightarrow>
                 if v = JNull \<or> v = JUndefined then None
                 else if typeof_object v \<and> \<not> isArray v then Some (JStr (objHash L v))
                 else Some v))
       \<and> (\<forall>p \<in> set (hashObjectProps L entry). snd p \<noteq> JNull \<and> snd p \<noteq> JUndefined)
       \<and> distinct (map fst (hashObjectProps L entry))
       \<and> filterCacheEntry L entry = hashObjectProps L entry"
proof -
  have eq: "hashObjectProps L entry = norm_list L entry"
    using assms by (rule hashObjectProps_norm_list)
  have "\<forall>k. map_of (norm_list L entry) k =
            (case map_of entry k of
               None \<Rightarrow> None
             | Some v \<Rightarrow>
                 if v = JNull \<or> v = JUndefined then None
                 else if typeof_object v \<and> \<not> isArray v then Some (JStr (objHash L v))
                 else Some v)"
    using map_of_norm_list [OF assms, of L]
    by (auto simp: norm_field_def split: option.splits)
  moreover have "\<forall>p \<in> set (norm_list L entry). snd p \<noteq> JNull \<and> snd p \<noteq> JUndefined"
    using norm_list_values [of _ _ L entry] by auto
  moreover have "distinct (map fst (norm_list L entry))"
    using assms by (rule distinct_norm_list)
  ultimately show ?thesis
    using eq filterCacheEntry_eq [of L entry] by simp
qed

theorem hashObjectProps_normalizes_witness:
  "distinct (map fst ex_entry)
   \<and> map_of (hashObjectProps ex_lib ex_entry) ''id'' = Some (JNum 5)
   \<and> map_of (hashObjectProps ex_lib ex_entry) ''params'' = Some (JStr ''h12'')
   \<and> map_of (hashObjectProps ex_lib ex_entry) ''tags'' = Some (JArr [JStr ''x''])
   \<and> map_of (hashObjectProps ex_lib ex_entry) ''note'' = None
   \<and> map_of (hashObjectProps ex_lib ex_entry) ''gone'' = None
   \<and> filterCacheEntry ex_lib ex_entry = hashObjectProps ex_lib ex_entry"
proof -
  have d: "distinct (map fst ex_entry)"
    by (simp add: ex_entry_def)
  have m: "map_of ex_entry ''id'' = Some (JNum 5)"
    "map_of ex_entry ''params'' = Some (JObj [(''a'', JNum 1), (''b'', JNum 2)])"
    "map_of ex_entry ''tags'' = Some (JArr [JStr ''x''])"
    "map_of ex_entry ''note'' = Some JNull"
    "map_of ex_entry ''gone'' = Some JUndefined"
    by (simp_all add: ex_entry_def)
  have h: "objHash ex_lib (JObj [(''a'', JNum 1), (''b'', JNum 2)]) = ''h12''"
    by (simp add: ex_lib_def ex_hash_def)
  show ?thesis
    using hashObjectProps_normalizes [OF d, of ex_lib] d m h by simp
qed

subsection \<open>C8\<close>

text \<open>
  C8 does not hold of the code. \<^verbatim>\<open>find\<close> calls \<^verbatim>\<open>orderBy\<close> and \<^verbatim>\<open>desc\<close> before
  \<^verbatim>\<open>where\<close>. A query with both \<^verbatim>\<open>orderBy\<close> and \<^verbatim>\<open>where\<close> calls \<^verbatim>\<open>where\<close> on a
  \<^verbatim>\<open>Collection\<close>, a descending query without \<^verbatim>\<open>orderBy\<close> calls \<^verbatim>\<open>desc\<close> on a
  \<^verbatim>\<open>Table\<close>, and a query with \<^verbatim>\<open>includeExpired\<close> and no other clause calls \<^verbatim>\<open>first\<close>
  on a \<^verbatim>\<open>Table\<close>: each throws a \<^verbatim>\<open>TypeError\<close> instead of returning entries. A
  where-query, and an ordered query without \<^verbatim>\<open>where\<close>, return as the claim says.
\<close>

theorem find_clause_order_raises:
  "(db_table (db C) store = Some t \<longrightarrow> orderBy q = Some k \<longrightarrow> k \<noteq> [] \<longrightarrow> where_q q = Some w
      \<longrightarrow> find L now fault C store q = (Inl (TypeError ''table.where is not a function''), C))
   \<and> (db_table (db C) store = Some t \<longrightarrow> orderBy q = None
      \<longrightarrow> (order_q q = Some ''desc'' \<or> order_q q = Some ''DESC'')
      \<longrightarrow> find L now fault C store q = (Inl (TypeError ''table.desc is not a function''), C))
   \<and> (db_table (db C) store = Some t \<longrightarrow> orderBy q = None \<longrightarrow> order_q q = None
      \<longrightarrow> where_q q = None \<longrightarrow> filter_q q = None \<longrightarrow> includeExpired q \<longrightarrow> limit q = None
      \<longrightarrow> find L now fault C store q = (Inl (TypeError ''table.first is not a function''), C))"
proof -
  have a: "find L now fault C store q = (Inl (TypeError ''table.where is not a function''), C)"
    if "db_table (db C) store = Some t" and "orderBy q = Some k" and "k \<noteq> []"
      and "where_q q = Some w"
  proof -
    have "build_query L (configs C) now store q (Table t) =
        Inl (TypeError ''table.where is not a function'')"
      using that(2-4)
      by (auto simp: build_query_def bind_exn_def step_orderBy_def step_order_def step_where_def
          split: option.splits)
    then show ?thesis using that(1) by (simp add: find_def find_in_def)
  qed
  have b: "find L now fault C store q = (Inl (TypeError ''table.desc is not a function''), C)"
    if "db_table (db C) store = Some t" and "orderBy q = None"
      and "order_q q = Some ''desc'' \<or> order_q q = Some ''DESC''"
  proof -
    have "build_query L (configs C) now store q (Table t) =
        Inl (TypeError ''table.desc is not a function'')"
      using that(2,3)
      by (auto simp: build_query_def bind_exn_def step_orderBy_def step_order_def)
    then show ?thesis using that(1) by (simp add: find_def find_in_def)
  qed
  have c: "find L now fault C store q = (Inl (TypeError ''table.first is not a function''), C)"
    if "db_table (db C) store = Some t" and "orderBy q = None" and "order_q q = None"
      and "where_q q = None" and "filter_q q = None" and "includeExpired q" and "limit q = None"
  proof -
    have "build_query L (configs C) now store q (Table t) = Inr (Table t)"
      using that(2-6)
      by (simp add: build_query_def bind_exn_def step_orderBy_def step_order_def step_where_def
          step_filter_def step_expired_def)
    then show ?thesis using that(1,7) by (simp add: find_def find_in_def run_query_def)
  qed
  show ?thesis
    using a b c by blast
qed

theorem find_clause_order_raises_witness:
  "find ex_lib 9000 None ex_cache ''medias/asset'' ((ex_find_id 2)\<lparr>orderBy := Some ''id''\<rparr>) =
       (Inl (TypeError ''table.where is not a function''), ex_cache)
   \<and> find ex_lib 9000 None ex_cache ''medias/asset'' ((ex_find_id 2)\<lparr>order_q := Some ''desc''\<rparr>) =
       (Inl (TypeError ''table.desc is not a function''), ex_cache)
   \<and> find ex_lib 9000 None ex_cache ''medias/asset'' (ex_query\<lparr>includeExpired := True\<rparr>) =
       (Inl (TypeError ''table.first is not a function''), ex_cache)
   \<and> find ex_lib 9000 None ex_cache ''medias/asset'' (ex_find_id 2) =
       (Inr (Single (ex_row 2 8999)), ex_cache)
   \<and> find ex_lib 9000 None ex_cache ''medias/asset''
        (ex_query\<lparr>orderBy := Some ''id'', order_q := Some ''desc'', includeExpired := True,
                   limit := Some 1\<rparr>) =
       (Inr (Many [ex_row 2 8999]), ex_cache)"
proof -
  let ?t = "(ex_medias [ex_row 1 4000, ex_row 2 8999])"
  have t: "db_table (db ex_cache) ''medias/asset'' = Some ?t"
    by (simp add: ex_cache_def ex_db_def db_table_def)
  have a: "find ex_lib 9000 None ex_cache ''medias/asset''
        ((ex_find_id 2)\<lparr>orderBy := Some ''id''\<rparr>) =
       (Inl (TypeError ''table.where is not a function''), ex_cache)"
    using find_clause_order_raises [of ex_cache "''medias/asset''" ?t
        "(ex_find_id 2)\<lparr>orderBy := Some ''id''\<rparr>" "''id''" "[(''id'', JNum 2)]" ex_lib 9000 None] t
    by (simp add: ex_find_id_def ex_query_def)
  have b: "find ex_lib 9000 None ex_cache ''medias/asset''
        ((ex_find_id 2)\<lparr>order_q := Some ''desc''\<rparr>) =
       (Inl (TypeError ''table.desc is not a function''), ex_cache)"
    using find_clause_order_raises [of ex_cache "''medias/asset''" ?t
        "(ex_find_id 2)\<lparr>order_q := Some ''desc''\<rparr>" "''id''" "[(''id'', JNum 2)]" ex_lib 9000 None] t
    by (simp add: ex_find_id_def ex_query_def)
  have c: "find ex_lib 9000 None ex_cache ''medias/asset'' (ex_query\<lparr>includeExpired := True\<rparr>) =
       (Inl (TypeError ''table.first is not a function''), ex_cache)"
    using find_clause_order_raises [of ex_cache "''medias/asset''" ?t
        "ex_query\<lparr>includeExpired := True\<rparr>" "''id''" "[(''id'', JNum 2)]" ex_lib 9000 None] t
    by (simp add: ex_query_def)
  have d: "find ex_lib 9000 None ex_cache ''medias/asset'' (ex_find_id 2) =
       (Inr (Single (ex_row 2 8999)), ex_cache)"
    by (simp add: ex_defs engine_defs cache_defs)
  have e: "find ex_lib 9000 None ex_cache ''medias/asset''
        (ex_query\<lparr>orderBy := Some ''id'', order_q := Some ''desc'', includeExpired := True,
                   limit := Some 1\<rparr>) =
       (Inr (Many [ex_row 2 8999]), ex_cache)"
    by (simp add: ex_defs engine_defs cache_defs)
  show ?thesis
    using a b c d e by blast
qed

subsection \<open>C9\<close>

text \<open>
  C9 holds of the code for some undeclared store names only. The guard of \<^verbatim>\<open>find\<close>
  and \<^verbatim>\<open>save\<close> tests \<^verbatim>\<open>this.db[store]\<close>, a property of the Dexie instance. For a name
  that the schema does not declare and that is not the name of a member of the instance,
  \<^verbatim>\<open>find\<close> resolves to nothing and \<^verbatim>\<open>save\<close> writes nothing; each reports "Store
  not found" on the console and neither raises. For an undeclared name that is the name
  of a member (\<^verbatim>\<open>constructor\<close>, \<^verbatim>\<open>toString\<close>, \<^verbatim>\<open>open\<close>, ...) the guard lets the call
  through: \<^verbatim>\<open>find\<close> throws a \<^verbatim>\<open>TypeError\<close>, and \<^verbatim>\<open>save\<close> neither writes nor
  reports.
\<close>

theorem undeclared_store:
  "(db_table (db C) store = None \<longrightarrow> \<not> db_member (db C) store \<longrightarrow>
      find L now fault C store q =
        (Inr Nothing, C\<lparr>console := console C @ [store_not_found store]\<rparr>)
      \<and> save L now fault C store d entry =
        (Inr (), C\<lparr>console := console C @ [store_not_found store]\<rparr>))
   \<and> (db_member (db C) store \<longrightarrow>
      (\<exists>msg. find L now fault C store q = (Inl (TypeError msg), C))
      \<and> save L now fault C store d entry = (Inr (), C))"
proof -
  have a: "db_table (db C) store = None \<longrightarrow> \<not> db_member (db C) store \<longrightarrow>
      find L now fault C store q =
        (Inr Nothing, C\<lparr>console := console C @ [store_not_found store]\<rparr>)
      \<and> save L now fault C store d entry =
        (Inr (), C\<lparr>console := console C @ [store_not_found store]\<rparr>)"
    by (simp add: find_def save_def)
  have b: "(\<exists>msg. find L now fault C store q = (Inl (TypeError msg), C))
      \<and> save L now fault C store d entry = (Inr (), C)" if m: "db_member (db C) store"
  proof -
    have n: "db_table (db C) store = None" using m by (simp add: db_member_def)
    have "handleError no_put C = C"
      by (simp add: handleError_def no_put_def error_names_def errnames_Upgrade_def)
    then show ?thesis
      using m n find_in_Other [of L now fault C store q] by (simp add: find_def save_def)
  qed
  show ?thesis
    using a b by blast
qed

theorem undeclared_store_witness:
  "db_table (db ex_cache) ''nope'' = None \<and> \<not> db_member (db ex_cache) ''nope''
   \<and> find ex_lib 9000 None ex_cache ''nope'' ex_query =
        (Inr Nothing, ex_cache\<lparr>console := [ConsoleError ''Store not found (nope)'']\<rparr>)
   \<and> save ex_lib 9000 None ex_cache ''nope'' (JStr ''payload'') ex_entry =
        (Inr (), ex_cache\<lparr>console := [ConsoleError ''Store not found (nope)'']\<rparr>)
   \<and> db_table (db ex_cache) ''constructor'' = None \<and> db_member (db ex_cache) ''constructor''
   \<and> find ex_lib 9000 None ex_cache ''constructor'' ex_query =
        (Inl (TypeError ''table.filter is not a function''), ex_cache)
   \<and> save ex_lib 9000 None ex_cache ''constructor'' (JStr ''payload'') ex_entry =
        (Inr (), ex_cache)"
proof -
  have n: "db_table (db ex_cache) ''nope'' = None" "\<not> db_member (db ex_cache) ''nope''"
    by (simp_all add: db_table_def db_member_def ex_cache_def ex_db_def ex_members_def)
  have m: "db_table (db ex_cache) ''constructor'' = None" "db_member (db ex_cache) ''constructor''"
    by (simp_all add: db_table_def db_member_def ex_cache_def ex_db_def ex_members_def)
  have c: "console ex_cache = []"
    by (simp add: ex_cache_def)
  have f: "find ex_lib 9000 None ex_cache ''constructor'' ex_query =
        (Inl (TypeError ''table.filter is not a function''), ex_cache)"
    by (simp add: ex_defs engine_defs cache_defs)
  have a: "find ex_lib 9000 None ex_cache ''nope'' ex_query =
        (Inr Nothing, ex_cache\<lparr>console := [ConsoleError ''Store not found (nope)'']\<rparr>)
   \<and> save ex_lib 9000 None ex_cache ''nope'' (JStr ''payload'') ex_entry =
        (Inr (), ex_cache\<lparr>console := [ConsoleError ''Store not found (nope)'']\<rparr>)"
    using undeclared_store [of ex_cache "''nope''" ex_lib 9000 None ex_query "JStr ''payload''"
        ex_entry] n c
    by (simp add: store_not_found_def)
  have b: "save ex_lib 9000 None ex_cache ''constructor'' (JStr ''payload'') ex_entry =
        (Inr (), ex_cache)"
    using undeclared_store [of ex_cache "''constructor''" ex_lib 9000 None ex_query
        "JStr ''payload''" ex_entry] m
    by blast
  show ?thesis
    using n m f a b by blast
qed

subsection \<open>C10\<close>

text \<open>
  C10. For every store and query, \<^verbatim>\<open>find\<close> leaves the database (and the
  configuration) as they were, whatever it returns and whether or not the engine fails
  or the call throws: it writes and deletes nothing. Beyond reading, it only writes to
  the console: for a declared store the expiration warning of this store, and only when
  \<^verbatim>\<open>logExpiration\<close> is set; for an undeclared one the store-not-found report, or
  nothing when the name is that of a member of the instance. In particular an expired
  entry that \<^verbatim>\<open>find\<close> met is still stored afterwards.
\<close>

theorem find_only_reads:
  "db (snd (find L now fault C store q)) = db C
   \<and> configs (snd (find L now fault C store q)) = configs C
   \<and> (\<exists>l. console (snd (find L now fault C store q)) = console C @ l
        \<and> (case db_table (db C) store of
             None \<Rightarrow> l = (if db_member (db C) store then [] else [store_not_found store])
           | Some t \<Rightarrow>
               (\<forall>m \<in> set l. m = ConsoleWarn (''['' @ store @ ''] Cache entry has expired.''))
               \<and> (\<not> logExpiration (configs C) \<longrightarrow> l = [])))
   \<and> (\<forall>t r. db_table (db C) store = Some t \<longrightarrow> r \<in> set (rows t)
          \<longrightarrow> fst (isExpired L (configs C) now store r)
          \<longrightarrow> (\<exists>t'. db_table (db (snd (find L now fault C store q))) store = Some t'
                    \<and> r \<in> set (rows t')))"
proof -
  have frame: "db (snd (find L now fault C store q)) = db C
      \<and> configs (snd (find L now fault C store q)) = configs C"
    using find_in_frame [of L now fault C store q]
    by (auto simp: find_def split: option.splits)
  have logs: "\<exists>l. console (snd (find L now fault C store q)) = console C @ l
        \<and> (case db_table (db C) store of
             None \<Rightarrow> l = (if db_member (db C) store then [] else [store_not_found store])
           | Some t \<Rightarrow>
               (\<forall>m \<in> set l. m = ConsoleWarn (''['' @ store @ ''] Cache entry has expired.''))
               \<and> (\<not> logExpiration (configs C) \<longrightarrow> l = []))"
  proof (cases "db_table (db C) store")
    case None
    then show ?thesis
      using find_in_Other [of L now fault C store q] by (auto simp: find_def)
  next
    case (Some t)
    show ?thesis
    proof (cases "build_query L (configs C) now store q (Table t)")
      case (Inl e)
      then show ?thesis using Some by (simp add: find_def find_in_def)
    next
      case (Inr h)
      let ?S = "if logExpiration (configs C)
                then {ConsoleWarn (''['' @ store @ ''] Cache entry has expired.'')} else {}"
      have "handle_logs h ?S" using Inr by (rule build_query_logs) simp
      then have "set (snd (run_query (request (db C) fault) q h)) \<subseteq> ?S"
        by (rule run_query_logs)
      then show ?thesis
        using Some Inr by (auto simp: find_def find_in_def split: prod.splits if_splits)
    qed
  qed
  show ?thesis
    using frame logs by simp
qed

theorem find_only_reads_witness:
  "fst (find ex_lib 9000 None ex_cache ''medias/asset'' (ex_find_id 1)) = Inr Nothing
   \<and> fst (isExpired ex_lib (configs ex_cache) 9000 ''medias/asset'' (ex_row 1 4000))
   \<and> db (snd (find ex_lib 9000 None ex_cache ''medias/asset'' (ex_find_id 1))) = ex_db
   \<and> console (snd (find ex_lib 9000 None ex_cache ''medias/asset'' (ex_find_id 1))) =
        [ConsoleWarn ''[medias/asset] Cache entry has expired.'']
   \<and> db_table ex_db ''medias/asset'' =
        Some (ex_medias [ex_row 1 4000, ex_row 2 8999])"
proof -
  have ev: "find ex_lib 9000 None ex_cache ''medias/asset'' (ex_find_id 1) =
      (Inr Nothing,
       ex_cache\<lparr>console := [ConsoleWarn ''[medias/asset] Cache entry has expired.'']\<rparr>)"
    by (simp add: ex_defs engine_defs cache_defs)
  have ex: "fst (isExpired ex_lib (configs ex_cache) 9000 ''medias/asset'' (ex_row 1 4000))"
    by (simp add: ex_defs cache_defs)
  have tb: "db_table ex_db ''medias/asset'' =
        Some (ex_medias [ex_row 1 4000, ex_row 2 8999])"
    by (simp add: ex_db_def db_table_def)
  have d: "db ex_cache = ex_db"
    by (simp add: ex_cache_def)
  show ?thesis
    using find_only_reads [of ex_lib 9000 None ex_cache "''medias/asset''" "ex_find_id 1"]
      ev ex tb d
    by simp
qed

end
